theory Spec2Isabelle
  imports
    Complex_Main
    "HOL-Library.Char_ord"
    "HOL-Library.List_Lexorder"
    "HOL-Library.AList"
    "HOL-Library.Multiset"
    "HOL-Library.Log_Nat"
begin

section \<open>JavaScript strings and numbers\<close>

text \<open>
  Strings of the source are modelled as \<open>string\<close>; every string the generator builds or
  inspects is ASCII, where the order on code units that \<open>Array.prototype.sort\<close> uses
  is the lexicographic order on characters. The loop counters and the block counts are
  natural numbers; the other numbers (balances, amounts, the values of \<open>Math.random()\<close>)
  are IEEE 754 doubles, modelled below.
\<close>

text \<open>\<open>String.prototype.includes\<close>\<close>

fun includesStr :: "string \<Rightarrow> string \<Rightarrow> bool" where
  "includesStr [] sub = (sub = [])"
| "includesStr (c # cs) sub = (take (length sub) (c # cs) = sub \<or> includesStr cs sub)"

text \<open>\<open>String.prototype.padStart\<close> with a one-character filler\<close>

definition padStart :: "nat \<Rightarrow> char \<Rightarrow> string \<Rightarrow> string" where
  "padStart n c s = replicate (n - length s) c @ s"

text \<open>\<open>String.prototype.substring(a, b)\<close> for \<open>a \<le> b\<close>\<close>

definition substring :: "nat \<Rightarrow> nat \<Rightarrow> string \<Rightarrow> string" where
  "substring a b s = take (b - a) (drop a s)"

text \<open>\<open>Array.prototype.join\<close>\<close>

fun join :: "string \<Rightarrow> string list \<Rightarrow> string" where
  "join sep [] = []"
| "join sep [x] = x"
| "join sep (x # y # ys) = x @ sep @ join sep (y # ys)"

text \<open>\<open>s.replace('_', ' ')\<close> replaces the first underscore only,
  \<open>s.replace(/_/g, ' ')\<close> all of them.\<close>

fun replaceFirst :: "char \<Rightarrow> char \<Rightarrow> string \<Rightarrow> string" where
  "replaceFirst a b [] = []"
| "replaceFirst a b (c # cs) = (if c = a then b # cs else c # replaceFirst a b cs)"

definition replaceAll :: "char \<Rightarrow> char \<Rightarrow> string \<Rightarrow> string" where
  "replaceAll a b s = map (\<lambda>c. if c = a then b else c) s"

text \<open>\<open>Number.prototype.toString()\<close> of a non-negative integer: its decimal digits.\<close>

definition digitChar :: "nat \<Rightarrow> char" where
  "digitChar d = ''0123456789'' ! d"

fun toString :: "nat \<Rightarrow> string" where
  "toString n = (if n < 10 then [digitChar n] else toString (n div 10) @ [digitChar (n mod 10)])"

text \<open>
  A finite double is modelled by the rational number it denotes. The arithmetic of the
  source does not compute with the exact values: every operation rounds its exact result
  to the nearest double, a tie going to the double with the even significand, and a decimal
  literal such as \<open>0.05\<close> denotes the double nearest to it, not 5/100.

  \<open>roundEven\<close> rounds to the nearest integer, ties to even. For a positive \<open>x\<close>,
  \<open>binade x\<close> is the exponent of \<open>x\<close>: the integer \<open>e\<close> with \<open>2 ^ e \<le> x < 2 ^ (e + 1)\<close>.
  \<open>ulp x\<close> is the spacing of the doubles around \<open>x\<close>: 52 binary places below the
  exponent, which is not taken below -1022 (the subnormal numbers). \<open>toDouble\<close> is the
  rounding. The exponent is not bounded above, and infinities and NaN have no counterpart
  in the model. The generator computes only with balances below 8 and with values of
  \<open>Math.random()\<close>, so nothing it computes overflows; its one division that can be by
  zero (by \<open>addresses.length\<close>) yields a value that is never read when the array is
  empty.
\<close>

definition roundEven :: "rat \<Rightarrow> int" where
  "roundEven y =
     (if y - of_int \<lfloor>y\<rfloor> < 1 / 2 then \<lfloor>y\<rfloor>
      else if 1 / 2 < y - of_int \<lfloor>y\<rfloor> then \<lfloor>y\<rfloor> + 1
      else if even \<lfloor>y\<rfloor> then \<lfloor>y\<rfloor> else \<lfloor>y\<rfloor> + 1)"

definition binade :: "rat \<Rightarrow> int" where
  "binade x = (if 1 \<le> x then bitlen \<lfloor>x\<rfloor> - 1 else - bitlen (\<lceil>1 / x\<rceil> - 1))"

definition ulp :: "rat \<Rightarrow> rat" where
  "ulp x = 2 powi (max (binade \<bar>x\<bar>) (- 1022) - 52)"

definition toDouble :: "rat \<Rightarrow> rat" where
  "toDouble x = (if x = 0 then 0 else of_int (roundEven (x / ulp x)) * ulp x)"

text \<open>The operators \<open>+\<close>, \<open>-\<close>, \<open>*\<close> and \<open>/\<close> on numbers. (\<open>Math.max\<close>, \<open>Math.floor\<close>
  and the comparisons are exact.)\<close>

definition dadd :: "rat \<Rightarrow> rat \<Rightarrow> rat" where
  "dadd x y = toDouble (x + y)"

definition dsub :: "rat \<Rightarrow> rat \<Rightarrow> rat" where
  "dsub x y = toDouble (x - y)"

definition dmul :: "rat \<Rightarrow> rat \<Rightarrow> rat" where
  "dmul x y = toDouble (x * y)"

definition ddiv :: "rat \<Rightarrow> rat \<Rightarrow> rat" where
  "ddiv x y = toDouble (x / y)"

text \<open>
  \<open>Number(x.toFixed(8))\<close>. \<open>toFixed(8)\<close> writes the decimal with eight places that is
  nearest to the exact value of \<open>x\<close>, the larger in magnitude of two equally near ones,
  and \<open>Number\<close> reads that decimal back as the nearest double. From \<open>10 ^ 21\<close> on,
  \<open>toFixed\<close> writes the number as \<open>String\<close> does, which \<open>Number\<close> reads back
  unchanged.
\<close>

definition toFixed8 :: "rat \<Rightarrow> rat" where
  "toFixed8 x =
     (if 10 ^ 21 \<le> \<bar>x\<bar> then x
      else toDouble (sgn x * of_int \<lfloor>\<bar>x\<bar> * 10 ^ 8 + 1 / 2\<rfloor> / 10 ^ 8))"

section \<open>Key extraction: the descriptor grammar and the fallback\<close>

definition isHex :: "char \<Rightarrow> bool" where
  "isHex c = (c \<in> set ''0123456789abcdefABCDEF'')"

definition isAlnum :: "char \<Rightarrow> bool" where
  "isAlnum c =
     (c \<in> set ''abcdefghijklmnopqrstuvwxyzABCDEFGHIJKLMNOPQRSTUVWXYZ0123456789'')"

text \<open>
  The regular expression of \<open>extractWalletKeys\<close>,
  \<^verbatim>\<open>/\[([a-fA-F0-9]{8})\/([^\]]+)\]([xtpub][a-zA-Z0-9]+)/\<close>, tried at the start of
  \<open>s\<close>. The second group cannot cross a closing bracket, so its greedy run ends at the
  first one; the third group takes the longest alphanumeric run.
\<close>

definition matchAt :: "string \<Rightarrow> (string \<times> string \<times> string) option" where
  "matchAt s =
     (case s of
        [] \<Rightarrow> None
      | c0 # r0 \<Rightarrow>
          if c0 \<noteq> CHR ''['' then None
          else if \<not> (length (take 8 r0) = 8 \<and> list_all isHex (take 8 r0)) then None
          else (case drop 8 r0 of
                  [] \<Rightarrow> None
                | c1 # r2 \<Rightarrow>
                    if c1 \<noteq> CHR ''/'' then None
                    else if takeWhile (\<lambda>c. c \<noteq> CHR '']'') r2 = [] then None
                    else (case dropWhile (\<lambda>c. c \<noteq> CHR '']'') r2 of
                            [] \<Rightarrow> None
                          | c3 # r4 \<Rightarrow>
                              (case r4 of
                                 [] \<Rightarrow> None
                               | c4 # r5 \<Rightarrow>
                                   if c4 \<notin> set ''xtpub'' then None
                                   else if takeWhile isAlnum r5 = [] then None
                                   else Some (take 8 r0,
                                              takeWhile (\<lambda>c. c \<noteq> CHR '']'') r2,
                                              c4 # takeWhile isAlnum r5)))))"

text \<open>\<open>desc.match(re)\<close>: the leftmost position at which the expression matches.\<close>

fun regexMatch :: "string \<Rightarrow> (string \<times> string \<times> string) option" where
  "regexMatch [] = matchAt []"
| "regexMatch (c # cs) =
     (case matchAt (c # cs) of Some m \<Rightarrow> Some m | None \<Rightarrow> regexMatch cs)"

record wallet_keys =
  k_xfp :: string
  k_xpub :: string
  k_bip32Path :: string

text \<open>
  The fallback block of \<open>extractWalletKeys\<close> (the lines after the \<open>try\<close>). \<open>index\<close> is
  the loop counter of \<open>createSignerWallets\<close>; \<open>rnd36\<close> is the text of
  \<open>Math.random().toString(36)\<close> drawn by this call.
\<close>

definition fallbackXfp :: "nat \<Rightarrow> string" where
  "fallbackXfp index =
     padStart 4 CHR ''0'' (toString (index + 1)) @ padStart 4 CHR ''0'' (toString (index + 1))"

definition fallbackKeys :: "nat \<Rightarrow> string \<Rightarrow> wallet_keys" where
  "fallbackKeys index rnd36 =
     \<lparr> k_xfp = fallbackXfp index,
       k_xpub = ''tpub661MyMwAqRbcF'' @ substring 2 50 rnd36,
       k_bip32Path = ''m/84'' @ [CHR 0x27] @ ''/1'' @ [CHR 0x27] @ ''/0'' @ [CHR 0x27] \<rparr>"

text \<open>The index written as four decimal digits, as the specification words it.\<close>

definition fourDigits :: "nat \<Rightarrow> string" where
  "fourDigits n =
     [digitChar (n div 1000 mod 10), digitChar (n div 100 mod 10),
      digitChar (n div 10 mod 10), digitChar (n mod 10)]"

section \<open>The threshold descriptor\<close>

text \<open>The descriptor string built by \<open>importMultisigDescriptor\<close> from the signers' xpubs.\<close>

definition multisigDescriptor :: "string list \<Rightarrow> string" where
  "multisigDescriptor xpubs =
     ''wsh(sortedmulti(2,'' @ join '','' (map (\<lambda>xpub. xpub @ ''/0/*'') (sort xpubs)) @ ''))''"

section \<open>The RPC gateway and the world the generator acts on\<close>

text \<open>
  An error thrown by the RPC client: its \<open>code\<close> (absent or not a number: \<open>None\<close>)
  and its \<open>message\<close>.
\<close>

record js_error =
  err_code :: "int option"
  err_message :: string

text \<open>
  The commands the generator sends through \<open>BitcoinCore.command\<close>, with their
  arguments. \<open>Createwallet\<close> carries the name, \<open>disable_private_keys\<close>, \<open>blank\<close> and,
  when given, the passphrase, \<open>avoid_reuse\<close> and \<open>descriptors\<close>; \<open>Importdescriptors\<close>
  the single request object (desc, active, range, timestamp).
\<close>

datatype command =
    Getblockchaininfo
  | Listwallets
  | Createwallet string bool bool "(string \<times> bool \<times> bool) option"
  | Loadwallet string
  | Unloadwallet string
  | Getnewaddress
  | Generatetoaddress nat string
  | Getbalance
  | Sendtoaddress string rat
  | Sendmany string "(string \<times> rat) list"
  | Listdescriptors
  | Getaddressinfo string
  | Createmultisig nat "string list"
  | Importdescriptors string bool nat nat string

text \<open>A request is a command sent through a client: the base client (\<open>None\<close>) or the
  client bound to a named wallet.\<close>

type_synonym request = "string option \<times> command"

text \<open>
  The environment of a run. The node is an arbitrary gateway: what it answers to a request
  may depend on every request sent before. The answers are typed by what the generator
  reads from them: nothing, a string (an address, the \<open>pubkey\<close> of an address, the
  \<open>address\<close> of a multisig), a list of strings (wallet names, the \<open>desc\<close> of each
  descriptor), a number (a balance, which is a double), or the \<open>chain\<close> and \<open>blocks\<close> of
  the chain info. \<open>random n\<close> is the \<open>n\<close>-th value \<open>Math.random()\<close> returns, a double
  too, and \<open>toString36\<close> is \<open>Number.prototype.toString(36)\<close>. The remaining fields are
  \<open>this.config\<close>.
\<close>

record env =
  answer_void :: "request list \<Rightarrow> request \<Rightarrow> js_error option"
  answer_string :: "request list \<Rightarrow> request \<Rightarrow> js_error + string"
  answer_strings :: "request list \<Rightarrow> request \<Rightarrow> js_error + string list"
  answer_number :: "request list \<Rightarrow> request \<Rightarrow> js_error + rat"
  answer_info :: "request list \<Rightarrow> request \<Rightarrow> js_error + (string \<times> int)"
  random :: "nat \<Rightarrow> rat"
  toString36 :: "rat \<Rightarrow> string"
  cfg_host :: string
  cfg_port :: nat
  cfg_username :: string
  cfg_password :: string

text \<open>The fixture document (\<open>WalletConfig\<close>).\<close>

record xpub_entry =
  e_name :: string
  e_xpub :: string
  e_bip32Path :: string
  e_xfp :: string
  e_method :: string

record client_config =
  c_type :: string
  c_url :: string
  c_username :: string
  c_password :: string
  c_walletName :: string

record WalletConfig =
  w_name :: string
  w_addressType :: string
  w_network :: string
  w_requiredSigners :: nat
  w_totalSigners :: nat
  w_extendedPublicKeys :: "xpub_entry list"
  w_client :: client_config

text \<open>
  The state a run changes: the requests sent so far (oldest first), the number of
  \<open>Math.random()\<close> calls made, and the fixture documents on disk, by path relative to
  the working directory. Console output and the \<open>sleep\<close> delays are not modelled.
\<close>

record world =
  trace :: "request list"
  draws :: nat
  files :: "(string \<times> WalletConfig) list"

text \<open>An \<open>async\<close> function: it returns a value or throws, and changes the world.\<close>

type_synonym 'a prog = "world \<Rightarrow> (js_error + 'a) \<times> world"

definition returnE :: "'a \<Rightarrow> 'a prog" where
  "returnE x = (\<lambda>w. (Inr x, w))"

definition throwE :: "js_error \<Rightarrow> 'a prog" where
  "throwE e = (\<lambda>w. (Inl e, w))"

definition bindE :: "'a prog \<Rightarrow> ('a \<Rightarrow> 'b prog) \<Rightarrow> 'b prog" where
  "bindE m f = (\<lambda>w. case m w of (Inl e, w') \<Rightarrow> (Inl e, w') | (Inr x, w') \<Rightarrow> f x w')"

text \<open>\<open>try { m } catch (e) { h e }\<close>\<close>

definition catchE :: "'a prog \<Rightarrow> (js_error \<Rightarrow> 'a prog) \<Rightarrow> 'a prog" where
  "catchE m h = (\<lambda>w. case m w of (Inl e, w') \<Rightarrow> h e w' | (Inr x, w') \<Rightarrow> (Inr x, w'))"

text \<open>A \<open>for\<close> loop without \<open>break\<close>.\<close>

fun forOf :: "'a list \<Rightarrow> ('a \<Rightarrow> unit prog) \<Rightarrow> unit prog" where
  "forOf [] body = returnE ()"
| "forOf (x # xs) body = bindE (body x) (\<lambda>_. forOf xs body)"

text \<open>A \<open>for\<close> loop whose body may \<open>break\<close>: the body yields \<open>False\<close> when it breaks.\<close>

fun forOfBreak :: "'a list \<Rightarrow> ('a \<Rightarrow> bool prog) \<Rightarrow> unit prog" where
  "forOfBreak [] body = returnE ()"
| "forOfBreak (x # xs) body =
     bindE (body x) (\<lambda>continue. if continue then forOfBreak xs body else returnE ())"

text \<open>A \<open>for\<close> loop that grows a local array or object.\<close>

fun foldE :: "'a list \<Rightarrow> ('a \<Rightarrow> 'b \<Rightarrow> 'b prog) \<Rightarrow> 'b \<Rightarrow> 'b prog" where
  "foldE [] body acc = returnE acc"
| "foldE (x # xs) body acc = bindE (body x acc) (foldE xs body)"

text \<open>\<open>client.command(...)\<close>: the request is recorded, the gateway answers.\<close>

definition rpc_void :: "env \<Rightarrow> string option \<Rightarrow> command \<Rightarrow> unit prog" where
  "rpc_void E ctx c =
     (\<lambda>w. ((case answer_void E (trace w) (ctx, c) of Some e \<Rightarrow> Inl e | None \<Rightarrow> Inr ()),
           w\<lparr>trace := trace w @ [(ctx, c)]\<rparr>))"

definition rpc_string :: "env \<Rightarrow> string option \<Rightarrow> command \<Rightarrow> string prog" where
  "rpc_string E ctx c =
     (\<lambda>w. (answer_string E (trace w) (ctx, c), w\<lparr>trace := trace w @ [(ctx, c)]\<rparr>))"

definition rpc_strings :: "env \<Rightarrow> string option \<Rightarrow> command \<Rightarrow> string list prog" where
  "rpc_strings E ctx c =
     (\<lambda>w. (answer_strings E (trace w) (ctx, c), w\<lparr>trace := trace w @ [(ctx, c)]\<rparr>))"

definition rpc_number :: "env \<Rightarrow> string option \<Rightarrow> command \<Rightarrow> rat prog" where
  "rpc_number E ctx c =
     (\<lambda>w. (answer_number E (trace w) (ctx, c), w\<lparr>trace := trace w @ [(ctx, c)]\<rparr>))"

definition rpc_info :: "env \<Rightarrow> string option \<Rightarrow> command \<Rightarrow> (string \<times> int) prog" where
  "rpc_info E ctx c =
     (\<lambda>w. (answer_info E (trace w) (ctx, c), w\<lparr>trace := trace w @ [(ctx, c)]\<rparr>))"

text \<open>\<open>Math.random()\<close>\<close>

definition mathRandom :: "env \<Rightarrow> rat prog" where
  "mathRandom E = (\<lambda>w. (Inr (random E (draws w)), w\<lparr>draws := Suc (draws w)\<rparr>))"

text \<open>
  \<open>fs.access\<close> throws when the file is absent; \<open>fs.writeFile\<close> (after the recursive
  \<open>fs.mkdir\<close>) stores the document. The document is kept as the value handed to
  \<open>JSON.stringify\<close>, not as its text, and the file system fails in no other way.
\<close>

definition fsAccess :: "string \<Rightarrow> unit prog" where
  "fsAccess path =
     (\<lambda>w. (case map_of (files w) path of
              None \<Rightarrow> Inl \<lparr>err_code = None, err_message = ''ENOENT''\<rparr>
            | Some doc \<Rightarrow> Inr (), w))"

definition fsWriteFile :: "string \<Rightarrow> WalletConfig \<Rightarrow> unit prog" where
  "fsWriteFile path doc = (\<lambda>w. (Inr (), w\<lparr>files := AList.update path doc (files w)\<rparr>))"

section \<open>The wallet generator\<close>

subsection \<open>Node set-up and clean-up\<close>

definition ensureMinerWallet :: "env \<Rightarrow> unit prog" where
  "ensureMinerWallet E =
     catchE
       (bindE (rpc_strings E None Listwallets) (\<lambda>wallets.
          if ''miner'' \<notin> set wallets
          then rpc_void E None (Createwallet ''miner'' False False None)
          else returnE ()))
       (\<lambda>error.
          if includesStr (err_message error) ''already exists''
          then rpc_void E None (Loadwallet ''miner'')
          else returnE ())"

definition setupInitialState :: "env \<Rightarrow> unit prog" where
  "setupInitialState E =
     bindE
       (catchE (rpc_void E None (Createwallet ''miner'' False False None))
          (\<lambda>error.
             if \<not> includesStr (err_message error) ''already exists''
             then rpc_void E None (Loadwallet ''miner'')
             else returnE ()))
       (\<lambda>_.
     bindE (rpc_string E (Some ''miner'') Getnewaddress) (\<lambda>address.
     rpc_void E None (Generatetoaddress 101 address)))"

text \<open>The message of the error thrown on a failed connection starts with a cross mark
  (U+274C, three bytes in UTF-8).\<close>

definition notAccessible :: js_error where
  "notAccessible =
     \<lparr> err_code = None,
       err_message = [CHR 0xE2, CHR 0x9D, CHR 0x8C]
         @ '' Bitcoin Core not accessible. Make sure Bitcoin Core is running!'' \<rparr>"

definition setupBitcoinEnvironment :: "env \<Rightarrow> unit prog" where
  "setupBitcoinEnvironment E =
     catchE
       (bindE (rpc_info E None Getblockchaininfo) (\<lambda>info.
          if snd info < 101 then setupInitialState E else ensureMinerWallet E))
       (\<lambda>error. throwE notAccessible)"

definition scenarios :: "string list" where
  "scenarios = [''bad_privacy'', ''bad_waste'', ''good_privacy'', ''good_waste'']"

definition cleanupPreviousWallets :: "env \<Rightarrow> unit prog" where
  "cleanupPreviousWallets E =
     forOf scenarios (\<lambda>scenario.
       bindE
         (forOf [1..<3] (\<lambda>i.
            catchE (rpc_void E None (Unloadwallet (scenario @ ''_signer_'' @ toString i)))
              (\<lambda>e. returnE ())))
         (\<lambda>_.
       catchE (rpc_void E None (Unloadwallet (scenario @ ''_watcher'')))
         (\<lambda>e. returnE ())))"

subsection \<open>Wallet lifecycle\<close>

text \<open>
  The block that \<open>createSignerWallets\<close> and \<open>createWatcherWallet\<close> both open with: they
  differ only in the \<open>disable_private_keys\<close> argument of \<open>createwallet\<close> (\<open>false\<close> for a
  signer, \<open>true\<close> for the watcher). The outer \<open>catch\<close> logs and rethrows.
\<close>

definition loadOrCreateWallet :: "env \<Rightarrow> string \<Rightarrow> bool \<Rightarrow> unit prog" where
  "loadOrCreateWallet E walletName disablePrivateKeys =
     catchE
       (bindE (rpc_strings E None Listwallets) (\<lambda>loadedWallets.
          if walletName \<in> set loadedWallets then returnE ()
          else
            catchE (rpc_void E None (Loadwallet walletName))
              (\<lambda>loadError.
                 if err_code loadError = Some (- 18)
                 then rpc_void E None
                        (Createwallet walletName disablePrivateKeys False (Some ([], False, True)))
                 else throwE loadError)))
       (\<lambda>error. throwE error)"

subsection \<open>Funding\<close>

definition fundWallet :: "env \<Rightarrow> string \<Rightarrow> unit prog" where
  "fundWallet E wallet =
     bindE (rpc_number E (Some wallet) Getbalance) (\<lambda>currentBalance.
     if currentBalance > 5 then returnE ()
     else
       bindE (rpc_string E (Some wallet) Getnewaddress) (\<lambda>address.
       bindE (rpc_void E None (Generatetoaddress 50 address)) (\<lambda>_.
       bindE (rpc_number E (Some wallet) Getbalance) (\<lambda>balanceAfterMining.
       bindE
         (if balanceAfterMining < 1
          then
            catchE
              (bindE (ensureMinerWallet E) (\<lambda>_.
               bindE (rpc_number E (Some ''miner'') Getbalance) (\<lambda>minerBalance.
               if minerBalance > 10
               then
                 bindE (rpc_void E (Some ''miner'') (Sendtoaddress address 5)) (\<lambda>_.
                 rpc_void E None (Generatetoaddress 1 address))
               else returnE ())))
              (\<lambda>error. returnE ())
          else returnE ())
         (\<lambda>_.
       bindE (rpc_number E (Some wallet) Getbalance) (\<lambda>finalBalance.
       returnE ()))))))"

subsection \<open>Key extraction\<close>

text \<open>The \<open>try\<close> block of \<open>extractWalletKeys\<close>: the keys parsed from the first descriptor
  that mentions \<open>pkh\<close> and \<open>/0/*\<close>, if there is one and the expression matches it.\<close>

definition parseDescriptors :: "string list \<Rightarrow> wallet_keys option" where
  "parseDescriptors descriptors =
     (case find (\<lambda>d. includesStr d ''pkh'' \<and> includesStr d ''/0/*'') descriptors of
        None \<Rightarrow> None
      | Some desc \<Rightarrow>
          (case regexMatch desc of
             None \<Rightarrow> None
           | Some (xfp, path, xpub) \<Rightarrow>
               Some \<lparr> k_xfp = xfp, k_xpub = xpub, k_bip32Path = ''m/'' @ path \<rparr>))"

definition extractWalletKeys :: "env \<Rightarrow> string \<Rightarrow> nat \<Rightarrow> wallet_keys prog" where
  "extractWalletKeys E wallet index =
     bindE
       (catchE
          (bindE (rpc_strings E (Some wallet) Listdescriptors) (\<lambda>descriptors.
             returnE (parseDescriptors descriptors)))
          (\<lambda>error. returnE None))
       (\<lambda>extracted.
          case extracted of
            Some keys \<Rightarrow> returnE keys
          | None \<Rightarrow>
              bindE (mathRandom E) (\<lambda>r. returnE (fallbackKeys index (toString36 E r))))"

text \<open>Key extraction falls back when \<open>listdescriptors\<close> fails or nothing is parsed
  out of its answer.\<close>

definition fallsBack :: "env \<Rightarrow> string \<Rightarrow> world \<Rightarrow> bool" where
  "fallsBack E wallet w =
     (case answer_strings E (trace w) (Some wallet, Listdescriptors) of
        Inl e \<Rightarrow> True
      | Inr descriptors \<Rightarrow> parseDescriptors descriptors = None)"

record signer =
  s_wallet :: string
  s_xpub :: string
  s_xfp :: string
  s_name :: string
  s_bip32Path :: string

definition createSignerWallets :: "env \<Rightarrow> string \<Rightarrow> signer list prog" where
  "createSignerWallets E scenarioName =
     foldE [0..<2] (\<lambda>i signers.
       bindE (loadOrCreateWallet E (scenarioName @ ''_signer_'' @ toString (i + 1)) False) (\<lambda>_.
       bindE (fundWallet E (scenarioName @ ''_signer_'' @ toString (i + 1))) (\<lambda>_.
       bindE (extractWalletKeys E (scenarioName @ ''_signer_'' @ toString (i + 1)) i) (\<lambda>keys.
       returnE (signers @
         [\<lparr> s_wallet = scenarioName @ ''_signer_'' @ toString (i + 1),
            s_xpub = k_xpub keys,
            s_xfp = k_xfp keys,
            s_name = scenarioName @ ''_signer_'' @ toString (i + 1),
            s_bip32Path = k_bip32Path keys \<rparr>]))))) []"

subsection \<open>Multisig assembly\<close>

text \<open>\<open>signers[0]\<close> of an empty array is \<open>undefined\<close>, and reading a property of it
  throws a \<open>TypeError\<close>.\<close>

definition typeError :: js_error where
  "typeError = \<lparr> err_code = None, err_message = ''TypeError'' \<rparr>"

definition coordinatorOf :: "signer list \<Rightarrow> string prog" where
  "coordinatorOf signers =
     (case signers of [] \<Rightarrow> throwE typeError | s # _ \<Rightarrow> returnE (s_wallet s))"

text \<open>The loop collects four addresses, so \<open>addresses[0]\<close> exists when it is read.\<close>

definition createMultisigAddress :: "env \<Rightarrow> signer list \<Rightarrow> (string \<times> string list) prog" where
  "createMultisigAddress E signers =
     bindE
       (foldE [0..<4] (\<lambda>i addresses.
          bindE
            (foldE signers (\<lambda>signer pubkeys.
               bindE (rpc_string E (Some (s_wallet signer)) Getnewaddress) (\<lambda>address.
               bindE (rpc_string E (Some (s_wallet signer)) (Getaddressinfo address)) (\<lambda>pubkey.
               returnE (pubkeys @ [pubkey])))) [])
            (\<lambda>pubkeys.
          bindE (coordinatorOf signers) (\<lambda>coordinator.
          bindE (rpc_string E (Some coordinator) (Createmultisig 2 pubkeys)) (\<lambda>address.
          returnE (addresses @ [address]))))) [])
       (\<lambda>addresses. returnE (hd addresses, addresses))"

definition importMultisigDescriptor :: "env \<Rightarrow> string \<Rightarrow> signer list \<Rightarrow> unit prog" where
  "importMultisigDescriptor E watcherWallet signers =
     catchE
       (rpc_void E (Some watcherWallet)
          (Importdescriptors (multisigDescriptor (map s_xpub signers)) True 0 100 ''now''))
       (\<lambda>error. returnE ())"

definition createWatcherWallet :: "env \<Rightarrow> string \<Rightarrow> signer list \<Rightarrow> string prog" where
  "createWatcherWallet E scenarioName signers =
     bindE (loadOrCreateWallet E (scenarioName @ ''_watcher'') True) (\<lambda>_.
     bindE (importMultisigDescriptor E (scenarioName @ ''_watcher'') signers) (\<lambda>_.
     returnE (scenarioName @ ''_watcher'')))"

text \<open>
  The amount per address of the reduced-funding branch,
  \<open>Math.max(0.05, (balance - 0.2) / addresses.length)\<close> for \<open>n\<close> addresses, and the amount
  sent, \<open>Math.floor(amountPerAddress * 100) / 100\<close>. With no address the quotient is
  infinite or NaN in the source; the loop over the addresses then never reads it.
\<close>

definition amountPerAddress :: "rat \<Rightarrow> nat \<Rightarrow> rat" where
  "amountPerAddress balance n =
     max (toDouble (5 / 100)) (ddiv (dsub balance (toDouble (2 / 10))) (of_nat n))"

definition roundedAmount :: "rat \<Rightarrow> rat" where
  "roundedAmount amount = ddiv (of_int \<lfloor>dmul amount 100\<rfloor>) 100"

definition fundMultisigAddresses :: "env \<Rightarrow> string list \<Rightarrow> string \<Rightarrow> unit prog" where
  "fundMultisigAddresses E addresses coordinatorWallet =
     bindE (rpc_number E (Some coordinatorWallet) Getbalance) (\<lambda>balance.
     if balance < toDouble (1 / 10) then returnE ()
     else
       bindE
         (if balance < 8
          then
            forOfBreak addresses (\<lambda>address.
              if amountPerAddress balance (length addresses) > toDouble (2 / 100)
              then
                catchE
                  (bindE
                     (rpc_void E (Some coordinatorWallet)
                        (Sendtoaddress address
                           (roundedAmount (amountPerAddress balance (length addresses)))))
                     (\<lambda>_. returnE True))
                  (\<lambda>error. returnE False)
              else returnE True)
          else
            forOf addresses (\<lambda>address.
              rpc_void E (Some coordinatorWallet) (Sendtoaddress address 2)))
         (\<lambda>_.
       bindE (rpc_string E (Some coordinatorWallet) Getnewaddress) (\<lambda>minerAddress.
       rpc_void E None (Generatetoaddress 6 minerAddress))))"

record multisig_wallet =
  m_signers :: "signer list"
  m_multisigAddress :: string
  m_watcherWallet :: string

definition createMultisigWallet :: "env \<Rightarrow> string \<Rightarrow> multisig_wallet prog" where
  "createMultisigWallet E scenarioName =
     bindE (createSignerWallets E scenarioName) (\<lambda>signers.
     bindE (createMultisigAddress E signers) (\<lambda>(multisigAddress, addresses).
     bindE (createWatcherWallet E scenarioName signers) (\<lambda>watcherWallet.
     bindE (coordinatorOf signers) (\<lambda>coordinator.
     bindE (fundMultisigAddresses E addresses coordinator) (\<lambda>_.
     returnE \<lparr> m_signers = signers, m_multisigAddress = multisigAddress,
               m_watcherWallet = watcherWallet \<rparr>)))))"

subsection \<open>Transaction patterns\<close>

definition createBadPrivacyPattern :: "env \<Rightarrow> signer list \<Rightarrow> unit prog" where
  "createBadPrivacyPattern E signers =
     bindE (coordinatorOf signers) (\<lambda>coordinator.
     bindE (rpc_string E (Some coordinator) Getnewaddress) (\<lambda>reusedAddress.
     bindE
       (forOf [0..<8] (\<lambda>i.
          rpc_void E (Some coordinator) (Sendtoaddress reusedAddress (5 / 10))))
       (\<lambda>_.
     bindE
       (forOf [1, 2, 5] (\<lambda>amount.
          bindE (rpc_string E (Some coordinator) Getnewaddress) (\<lambda>addr.
          rpc_void E (Some coordinator) (Sendtoaddress addr amount))))
       (\<lambda>_.
     bindE (rpc_string E (Some coordinator) Getnewaddress) (\<lambda>address.
     rpc_void E None (Generatetoaddress 3 address))))))"

definition createBadWastePattern :: "env \<Rightarrow> signer list \<Rightarrow> unit prog" where
  "createBadWastePattern E signers =
     bindE (coordinatorOf signers) (\<lambda>coordinator.
     bindE
       (foldE [0..<15] (\<lambda>i dustOutputs.
          bindE (rpc_string E (Some coordinator) Getnewaddress) (\<lambda>addr.
          returnE (AList.update addr (toDouble (1 / 100000)) dustOutputs))) [])
       (\<lambda>dustOutputs.
     bindE (rpc_void E (Some coordinator) (Sendmany [] dustOutputs)) (\<lambda>_.
     bindE
       (forOf [0..<5] (\<lambda>i.
          bindE (rpc_string E (Some coordinator) Getnewaddress) (\<lambda>addr.
          rpc_void E (Some coordinator) (Sendtoaddress addr (toDouble (1 / 1000))))))
       (\<lambda>_.
     bindE
       (forOf [0..<10] (\<lambda>i.
          bindE (rpc_string E (Some coordinator) Getnewaddress) (\<lambda>addr.
          bindE (mathRandom E) (\<lambda>r.
          rpc_void E (Some coordinator)
            (Sendtoaddress addr
               (toFixed8 (dadd (dmul r (toDouble (1 / 10))) (toDouble (1 / 1000)))))))))
       (\<lambda>_.
     bindE (rpc_string E (Some coordinator) Getnewaddress) (\<lambda>address.
     rpc_void E None (Generatetoaddress 3 address)))))))"

definition createGoodPrivacyPattern :: "env \<Rightarrow> signer list \<Rightarrow> unit prog" where
  "createGoodPrivacyPattern E signers =
     bindE (coordinatorOf signers) (\<lambda>coordinator.
     bindE (rpc_number E (Some coordinator) Getbalance) (\<lambda>balance.
     bindE
       (if balance < 1
        then
          forOfBreak [0..<3] (\<lambda>i.
            bindE (rpc_string E (Some coordinator) Getnewaddress) (\<lambda>freshAddr.
            bindE (mathRandom E) (\<lambda>r.
            catchE
              (bindE
                 (rpc_void E (Some coordinator)
                    (Sendtoaddress freshAddr
                       (toFixed8 (dadd (dmul r (toDouble (5 / 100))) (toDouble (1 / 100))))))
                 (\<lambda>_. returnE True))
              (\<lambda>error. returnE False))))
        else
          forOfBreak [0..<8] (\<lambda>i.
            bindE (rpc_string E (Some coordinator) Getnewaddress) (\<lambda>freshAddr.
            bindE (mathRandom E) (\<lambda>r.
            bindE
              (catchE
                 (bindE
                    (rpc_void E (Some coordinator)
                       (Sendtoaddress freshAddr
                          (toFixed8 (dadd (dmul r (toDouble (1 / 10))) (toDouble (1 / 100))))))
                    (\<lambda>_. returnE True))
                 (\<lambda>error. returnE False))
              (\<lambda>sent.
            if sent then bindE (mathRandom E) (\<lambda>delay. returnE True)
            else returnE False)))))
       (\<lambda>_.
     bindE (rpc_string E (Some coordinator) Getnewaddress) (\<lambda>address.
     rpc_void E None (Generatetoaddress 2 address)))))"

definition createGoodWastePattern :: "env \<Rightarrow> signer list \<Rightarrow> unit prog" where
  "createGoodWastePattern E signers =
     bindE (coordinatorOf signers) (\<lambda>coordinator.
     bindE (rpc_number E (Some coordinator) Getbalance) (\<lambda>balance.
     bindE
       (if balance < 1
        then
          forOfBreak [0..<3] (\<lambda>i.
            bindE (rpc_string E (Some coordinator) Getnewaddress) (\<lambda>addr.
            bindE (mathRandom E) (\<lambda>r.
            catchE
              (bindE
                 (rpc_void E (Some coordinator)
                    (Sendtoaddress addr
                       (toFixed8 (dadd (dmul r (toDouble (5 / 100))) (toDouble (1 / 100))))))
                 (\<lambda>_. returnE True))
              (\<lambda>error. returnE False))))
        else
          bindE
            (forOfBreak [0..<5] (\<lambda>i.
               bindE (rpc_string E (Some coordinator) Getnewaddress) (\<lambda>addr.
               bindE (mathRandom E) (\<lambda>r.
               catchE
                 (bindE
                    (rpc_void E (Some coordinator)
                       (Sendtoaddress addr
                          (toFixed8 (dadd (dmul r (toDouble (1 / 10))) (toDouble (2 / 100))))))
                    (\<lambda>_. returnE True))
                 (\<lambda>error. returnE False)))))
            (\<lambda>_.
          bindE
            (foldE [0..<3] (\<lambda>i batchOutputs.
               bindE (rpc_string E (Some coordinator) Getnewaddress) (\<lambda>addr.
               bindE (mathRandom E) (\<lambda>r.
               returnE
                 (AList.update addr
                    (toFixed8 (dadd (dmul r (toDouble (5 / 100))) (toDouble (1 / 100))))
                    batchOutputs)))) [])
            (\<lambda>batchOutputs.
          catchE (rpc_void E (Some coordinator) (Sendmany [] batchOutputs))
            (\<lambda>error. returnE ()))))
       (\<lambda>_.
     bindE (rpc_string E (Some coordinator) Getnewaddress) (\<lambda>address.
     rpc_void E None (Generatetoaddress 2 address)))))"

subsection \<open>Fixture export and orchestration\<close>

definition configPath :: "string \<Rightarrow> string" where
  "configPath scenarioName = ''tmp/'' @ scenarioName @ ''_caravan.json''"

definition caravanConfig :: "env \<Rightarrow> string \<Rightarrow> signer list \<Rightarrow> WalletConfig" where
  "caravanConfig E scenarioName signers =
     \<lparr> w_name = replaceFirst CHR ''_'' CHR '' '' scenarioName @ '' Multisig (2-of-2)'',
       w_addressType = ''P2WSH'',
       w_network = ''regtest'',
       w_requiredSigners = 2,
       w_totalSigners = 2,
       w_extendedPublicKeys =
         map (\<lambda>signer.
                \<lparr> e_name = replaceAll CHR ''_'' CHR '' '' (s_name signer),
                  e_xpub = s_xpub signer,
                  e_bip32Path = s_bip32Path signer,
                  e_xfp = s_xfp signer,
                  e_method = ''text'' \<rparr>) signers,
       w_client =
         \<lparr> c_type = ''private'',
           c_url = ''http://'' @ cfg_host E @ '':'' @ toString (cfg_port E),
           c_username = cfg_username E,
           c_password = cfg_password E,
           c_walletName = scenarioName @ ''_watcher'' \<rparr> \<rparr>"

definition saveCaravanConfig :: "env \<Rightarrow> string \<Rightarrow> signer list \<Rightarrow> unit prog" where
  "saveCaravanConfig E scenarioName signers =
     fsWriteFile (configPath scenarioName) (caravanConfig E scenarioName signers)"

definition generateBadPrivacyWallet :: "env \<Rightarrow> unit prog" where
  "generateBadPrivacyWallet E =
     bindE (createMultisigWallet E ''bad_privacy'') (\<lambda>m.
     bindE (createBadPrivacyPattern E (m_signers m)) (\<lambda>_.
     saveCaravanConfig E ''bad_privacy'' (m_signers m)))"

definition generateBadWasteWallet :: "env \<Rightarrow> unit prog" where
  "generateBadWasteWallet E =
     bindE (createMultisigWallet E ''bad_waste'') (\<lambda>m.
     bindE (createBadWastePattern E (m_signers m)) (\<lambda>_.
     saveCaravanConfig E ''bad_waste'' (m_signers m)))"

definition generateGoodPrivacyWallet :: "env \<Rightarrow> unit prog" where
  "generateGoodPrivacyWallet E =
     bindE (createMultisigWallet E ''good_privacy'') (\<lambda>m.
     bindE (createGoodPrivacyPattern E (m_signers m)) (\<lambda>_.
     saveCaravanConfig E ''good_privacy'' (m_signers m)))"

definition generateGoodWasteWallet :: "env \<Rightarrow> unit prog" where
  "generateGoodWasteWallet E =
     bindE (createMultisigWallet E ''good_waste'') (\<lambda>m.
     bindE (createGoodWastePattern E (m_signers m)) (\<lambda>_.
     saveCaravanConfig E ''good_waste'' (m_signers m)))"

definition generateAllWallets :: "env \<Rightarrow> unit prog" where
  "generateAllWallets E =
     bindE (setupBitcoinEnvironment E) (\<lambda>_.
     bindE (cleanupPreviousWallets E) (\<lambda>_.
     forOf
       [(''bad_privacy'', generateBadPrivacyWallet E),
        (''bad_waste'', generateBadWasteWallet E),
        (''good_privacy'', generateGoodPrivacyWallet E),
        (''good_waste'', generateGoodWasteWallet E)]
       (\<lambda>scenario.
          catchE (fsAccess (configPath (fst scenario))) (\<lambda>e. snd scenario))))"

section \<open>Reading a run\<close>

text \<open>The requests a program sent: what it appended to the trace.\<close>

definition issued :: "world \<Rightarrow> world \<Rightarrow> request list" where
  "issued w w' = drop (length (trace w)) (trace w')"

text \<open>A request that spends from a wallet by \<open>sendtoaddress\<close>.\<close>

definition isPayment :: "request \<Rightarrow> bool" where
  "isPayment r = (case snd r of Sendtoaddress a x \<Rightarrow> True | _ \<Rightarrow> False)"

text \<open>
  The requests of node set-up (they concern the chain and the \<open>miner\<close> wallet only) and
  the \<open>unloadwallet\<close> requests of the clean-up.
\<close>

fun minerSetupRequest :: "request \<Rightarrow> bool" where
  "minerSetupRequest (None, Getblockchaininfo) = True"
| "minerSetupRequest (None, Listwallets) = True"
| "minerSetupRequest (None, Createwallet n d b opts) = (n = ''miner'')"
| "minerSetupRequest (None, Loadwallet n) = (n = ''miner'')"
| "minerSetupRequest (Some n, Getnewaddress) = (n = ''miner'')"
| "minerSetupRequest (None, Generatetoaddress k a) = (k = 101)"
| "minerSetupRequest r = False"

fun unloadRequest :: "request \<Rightarrow> bool" where
  "unloadRequest (None, Unloadwallet n) = True"
| "unloadRequest r = False"

text \<open>A request that creates or loads the wallet \<open>n\<close>, or is sent through the client bound to
  it (a balance query, an address request, a payment, an import).\<close>

fun touchesWallet :: "string \<Rightarrow> request \<Rightarrow> bool" where
  "touchesWallet n (Some c, cmd) = (c = n)"
| "touchesWallet n (None, Createwallet m d b opts) = (m = n)"
| "touchesWallet n (None, Loadwallet m) = (m = n)"
| "touchesWallet n (None, cmd) = False"

text \<open>The wallets the clean-up unloads, in order.\<close>

definition cleanupNames :: "string list" where
  "cleanupNames =
     [''bad_privacy_signer_1'', ''bad_privacy_signer_2'', ''bad_privacy_watcher'',
      ''bad_waste_signer_1'', ''bad_waste_signer_2'', ''bad_waste_watcher'',
      ''good_privacy_signer_1'', ''good_privacy_signer_2'', ''good_privacy_watcher'',
      ''good_waste_signer_1'', ''good_waste_signer_2'', ''good_waste_watcher'']"

text \<open>All four fixture documents are on disk.\<close>

definition fixturesExist :: "world \<Rightarrow> bool" where
  "fixturesExist w = list_all (\<lambda>s. map_of (files w) (configPath s) \<noteq> None) scenarios"

text \<open>A program that sends only requests of kind \<open>P\<close> and changes nothing else.\<close>

definition sendsOnly :: "(request \<Rightarrow> bool) \<Rightarrow> 'a prog \<Rightarrow> bool" where
  "sendsOnly P m = (\<forall>w. \<exists>ts. snd (m w) = w\<lparr>trace := trace w @ ts\<rparr> \<and> list_all P ts)"

section \<open>Sample nodes\<close>

text \<open>Errors a node reports.\<close>

definition insufficientFunds :: js_error where
  "insufficientFunds = \<lparr> err_code = Some (- 6), err_message = ''Insufficient funds'' \<rparr>"

definition connectionRefused :: js_error where
  "connectionRefused = \<lparr> err_code = None, err_message = ''connect ECONNREFUSED'' \<rparr>"

definition walletNotFound :: js_error where
  "walletNotFound = \<lparr> err_code = Some (- 18), err_message = ''Wallet file not found'' \<rparr>"

definition walletBusy :: js_error where
  "walletBusy = \<lparr> err_code = Some (- 4), err_message = ''Wallet already loading'' \<rparr>"

text \<open>
  \<open>sampleEnv\<close> answers every address request with a fresh address (one letter longer for
  each request sent before), a balance query through client \<open>c\<close> with \<open>balanceOf c\<close>,
  \<open>listwallets\<close> with \<open>walletsAnswer\<close> and \<open>listdescriptors\<close> with \<open>descriptorsAnswer\<close>;
  commands whose result is not read are answered by \<open>voidAnswer\<close>. Its random source
  returns 0.5 and then 0, whose base-36 texts are \<open>0.i\<close> and \<open>0\<close>.
\<close>

definition sampleEnv ::
  "(request list \<Rightarrow> request \<Rightarrow> js_error option) \<Rightarrow> js_error + string list \<Rightarrow>
   js_error + string list \<Rightarrow> (string option \<Rightarrow> js_error + rat) \<Rightarrow> env" where
  "sampleEnv voidAnswer walletsAnswer descriptorsAnswer balanceOf =
     \<lparr> answer_void = voidAnswer,
       answer_string = (\<lambda>h r. Inr (replicate (Suc (length h)) CHR ''a'')),
       answer_strings =
         (\<lambda>h r. case snd r of Listwallets \<Rightarrow> walletsAnswer | _ \<Rightarrow> descriptorsAnswer),
       answer_number = (\<lambda>h r. balanceOf (fst r)),
       answer_info = (\<lambda>h r. Inr (''regtest'', 200)),
       random = (\<lambda>n. if n = 0 then 1 / 2 else 0),
       toString36 = (\<lambda>r. if r = 0 then ''0'' else ''0.i''),
       cfg_host = ''localhost'',
       cfg_port = 18443,
       cfg_username = ''rpcuser'',
       cfg_password = ''rpcpass'' \<rparr>"

text \<open>Answers to the commands whose result is not read: everything is accepted; every
  payment is refused; only the first payment is accepted; payments of 5 or more are
  refused; \<open>loadwallet\<close> fails with a given error.\<close>

definition allAccepted :: "request list \<Rightarrow> request \<Rightarrow> js_error option" where
  "allAccepted h r = None"

definition paymentsRefused :: "request list \<Rightarrow> request \<Rightarrow> js_error option" where
  "paymentsRefused h r = (if isPayment r then Some insufficientFunds else None)"

definition onePaymentAccepted :: "request list \<Rightarrow> request \<Rightarrow> js_error option" where
  "onePaymentAccepted h r =
     (if isPayment r \<and> filter isPayment h \<noteq> [] then Some insufficientFunds else None)"

definition largePaymentsRefused :: "request list \<Rightarrow> request \<Rightarrow> js_error option" where
  "largePaymentsRefused h r =
     (case snd r of
        Sendtoaddress a x \<Rightarrow> if 5 \<le> x then Some insufficientFunds else None
      | _ \<Rightarrow> None)"

definition loadFails :: "js_error \<Rightarrow> request list \<Rightarrow> request \<Rightarrow> js_error option" where
  "loadFails e h r = (case snd r of Loadwallet n \<Rightarrow> Some e | _ \<Rightarrow> None)"

text \<open>A node that accepts and answers everything, with no wallet loaded, no descriptor
  reported and a balance of 10 everywhere; one on which \<open>listdescriptors\<close> fails; one on
  which every wallet is funded and reports a key descriptor; and one that cannot be
  reached for balances, wallet lists and descriptors.\<close>

definition healthyNode :: env where
  "healthyNode = sampleEnv allAccepted (Inr []) (Inr []) (\<lambda>c. Inr 10)"

definition keylessNode :: env where
  "keylessNode = sampleEnv allAccepted (Inr []) (Inl connectionRefused) (\<lambda>c. Inr 10)"

definition fundedNode :: env where
  "fundedNode =
     sampleEnv allAccepted (Inr [''miner''])
       (Inr [''pkh([d34db33f/44h/1h/0h]tpubDEMO/0/*)#checksum'']) (\<lambda>c. Inr 10)"

definition unreachableNode :: env where
  "unreachableNode =
     sampleEnv allAccepted (Inl connectionRefused) (Inl connectionRefused)
       (\<lambda>c. Inl connectionRefused)"

text \<open>Nodes for the wallet-ensure step: one on which the watcher is already loaded, one on
  which the wallet file is missing, one on which loading fails for another reason, and
  (below) two on which loading fails for another reason for one wallet only, the second
  signer or the watcher.\<close>

definition loadedNode :: env where
  "loadedNode = sampleEnv allAccepted (Inr [''bad_privacy_watcher'']) (Inr []) (\<lambda>c. Inr 10)"

definition missingWalletNode :: env where
  "missingWalletNode =
     sampleEnv (loadFails walletNotFound) (Inr [''miner'']) (Inr []) (\<lambda>c. Inr 10)"

definition busyWalletNode :: env where
  "busyWalletNode = sampleEnv (loadFails walletBusy) (Inr [''miner'']) (Inr []) (\<lambda>c. Inr 10)"

definition loadFailsFor ::
  "string \<Rightarrow> js_error \<Rightarrow> request list \<Rightarrow> request \<Rightarrow> js_error option" where
  "loadFailsFor name e h r =
     (case snd r of Loadwallet n \<Rightarrow> if n = name then Some e else None | _ \<Rightarrow> None)"

definition secondSignerBusyNode :: env where
  "secondSignerBusyNode =
     sampleEnv (loadFailsFor ''bad_privacy_signer_2'' walletBusy) (Inr [''miner'']) (Inr [])
       (\<lambda>c. Inr 10)"

definition watcherBusyNode :: env where
  "watcherBusyNode =
     sampleEnv (loadFailsFor ''bad_privacy_watcher'' walletBusy) (Inr [''miner'']) (Inr [])
       (\<lambda>c. Inr 10)"

text \<open>Nodes short of funds: one whose wallets hold exactly 5; one whose wallets hold nothing
  while the miner wallet holds 20 but cannot pay; one whose wallets hold 0.5 and that
  accepts every payment; one whose wallets hold 0.1 (the double) and that accepts one
  payment only; one whose wallets hold nothing and that refuses every payment; and one
  whose wallets hold exactly 5 and that refuses a payment of 5 or more for lack of funds
  (the fee does not fit).\<close>

definition thresholdNode :: env where
  "thresholdNode = sampleEnv allAccepted (Inr []) (Inr []) (\<lambda>c. Inr 5)"

definition starvedNode :: env where
  "starvedNode =
     sampleEnv paymentsRefused (Inr [''miner'']) (Inr [])
       (\<lambda>c. if c = Some ''miner'' then Inr 20 else Inr 0)"

definition modestNode :: env where
  "modestNode = sampleEnv allAccepted (Inr []) (Inr []) (\<lambda>c. Inr (1 / 2))"

definition nearlyEmptyNode :: env where
  "nearlyEmptyNode =
     sampleEnv onePaymentAccepted (Inr []) (Inr []) (\<lambda>c. Inr (toDouble (1 / 10)))"

definition emptyNode :: env where
  "emptyNode = sampleEnv paymentsRefused (Inr []) (Inr []) (\<lambda>c. Inr 0)"

definition tightNode :: env where
  "tightNode =
     sampleEnv largePaymentsRefused (Inr [''miner''])
       (Inr [''pkh([d34db33f/44h/1h/0h]tpubDEMO/0/*)#checksum'']) (\<lambda>c. Inr 5)"

text \<open>Nodes on which one of a wallet's own funding requests fails: one that answers no
  address request, one that refuses to mine, and one that stops answering balance
  queries once \<open>n\<close> requests have been sent (and reports empty wallets before).\<close>

definition addresslessNode :: env where
  "addresslessNode = thresholdNode\<lparr>answer_string := \<lambda>h r. Inl connectionRefused\<rparr>"

definition miningRefused :: "request list \<Rightarrow> request \<Rightarrow> js_error option" where
  "miningRefused h r =
     (case snd r of Generatetoaddress n a \<Rightarrow> Some connectionRefused | _ \<Rightarrow> None)"

definition noMiningNode :: env where
  "noMiningNode = sampleEnv miningRefused (Inr []) (Inr []) (\<lambda>c. Inr 5)"

definition fadingNode :: "nat \<Rightarrow> env" where
  "fadingNode n =
     starvedNode\<lparr>answer_number :=
       \<lambda>h r. if length h < n then Inr 0 else Inl connectionRefused\<rparr>"

text \<open>The two signers of the bad-privacy scenario, a fresh world, and a world left by an
  earlier run, in which the four documents exist.\<close>

definition coordinatorSigner :: signer where
  "coordinatorSigner =
     \<lparr> s_wallet = ''bad_privacy_signer_1'', s_xpub = ''tpubB'', s_xfp = ''0b0b0b0b'',
       s_name = ''bad_privacy_signer_1'', s_bip32Path = ''m/44h/1h/0h'' \<rparr>"

definition secondSigner :: signer where
  "secondSigner =
     \<lparr> s_wallet = ''bad_privacy_signer_2'', s_xpub = ''tpubA'', s_xfp = ''0a0a0a0a'',
       s_name = ''bad_privacy_signer_2'', s_bip32Path = ''m/44h/1h/0h'' \<rparr>"

definition sampleSigners :: "signer list" where
  "sampleSigners = [coordinatorSigner, secondSigner]"

definition world0 :: world where
  "world0 = \<lparr> trace = [], draws = 0, files = [] \<rparr>"

definition fixturesWorld :: world where
  "fixturesWorld =
     \<lparr> trace = [], draws = 0,
       files = map (\<lambda>s. (configPath s, caravanConfig fundedNode s sampleSigners)) scenarios \<rparr>"

section \<open>Strings: the fallback fingerprint and the descriptor\<close>

declare toString.simps [simp del]

lemma digitChar_0: "digitChar 0 = CHR ''0''"
  by (simp add: digitChar_def)

lemma toString_small: "n < 10 \<Longrightarrow> toString n = [digitChar n]"
  by (subst toString.simps) simp

lemma toString_large: "10 \<le> n \<Longrightarrow> toString n = toString (n div 10) @ [digitChar (n mod 10)]"
  by (subst toString.simps) simp

lemma replicate_small:
  "replicate 3 c = [c, c, c]" "replicate 2 c = [c, c]"
  by (simp_all add: numeral_3_eq_3 numeral_2_eq_2)

lemma padStart_toString:
  assumes "n < 10000"
  shows "padStart 4 CHR ''0'' (toString n) = fourDigits n"
proof -
  consider "n < 10" | "10 \<le> n" "n < 100" | "100 \<le> n" "n < 1000" | "1000 \<le> n"
    by linarith
  then show ?thesis
  proof cases
    case 1
    then show ?thesis
      by (simp add: toString_small padStart_def fourDigits_def digitChar_0 replicate_small)
  next
    case 2
    then have "n div 10 < 10" "n div 100 = 0" "n div 1000 = 0" by auto
    with 2 show ?thesis
      by (simp add: toString_large toString_small padStart_def fourDigits_def digitChar_0
            replicate_small)
  next
    case 3
    then have "10 \<le> n div 10" "n div 10 div 10 < 10" "n div 1000 = 0" "n div 100 < 10"
      by auto
    with 3 show ?thesis
      by (simp add: toString_large toString_small padStart_def fourDigits_def digitChar_0
            replicate_small div_mult2_eq [symmetric])
  next
    case 4
    with assms have "10 \<le> n div 10" "10 \<le> n div 10 div 10" "n div 10 div 10 div 10 < 10"
      "n div 1000 < 10"
      by auto
    with 4 show ?thesis
      by (simp add: toString_large toString_small padStart_def fourDigits_def
            div_mult2_eq [symmetric])
  qed
qed

lemma sort_cong_mset: "mset xs = mset ys \<Longrightarrow> sort xs = sort ys"
  by (metis sorted_list_of_multiset_mset)

lemma multisigDescriptor_cong:
  "mset xs = mset ys \<Longrightarrow> multisigDescriptor xs = multisigDescriptor ys"
  by (simp add: multisigDescriptor_def sort_cong_mset [of xs ys])

lemma multisigDescriptor_pair:
  assumes "a \<le> b"
  shows "multisigDescriptor [b, a] = ''wsh(sortedmulti(2,'' @ a @ ''/0/*,'' @ b @ ''/0/*))''"
proof (cases "a = b")
  case True
  then show ?thesis by (simp add: multisigDescriptor_def)
next
  case False
  with assms have "\<not> b \<le> a" by auto
  then show ?thesis by (simp add: multisigDescriptor_def)
qed

section \<open>Numbers: rounding to the nearest double\<close>

text \<open>Evaluating the rounding on a given rational.\<close>

lemma floor_rat_numeral:
  "\<lfloor>(numeral a :: rat) / numeral b\<rfloor> = numeral a div numeral b"
  using floor_divide_of_int_eq [of "numeral a" "numeral b", where ?'a = rat] by simp

lemma floor_rat_neg_numeral:
  "\<lfloor>- ((numeral a :: rat) / numeral b)\<rfloor> = - numeral a div numeral b"
  using floor_divide_of_int_eq [of "- numeral a" "numeral b", where ?'a = rat] by simp

lemma ceiling_rat_numeral:
  "\<lceil>(numeral a :: rat) / numeral b\<rceil> = - (- numeral a div numeral b)"
  unfolding ceiling_def by (simp add: floor_rat_neg_numeral)

lemmas double_eval = toDouble_def ulp_def roundEven_def binade_def compute_bitlen
  floor_rat_numeral floor_rat_neg_numeral ceiling_rat_numeral

lemmas number_defs = dadd_def dsub_def dmul_def ddiv_def toFixed8_def amountPerAddress_def
  roundedAmount_def

text \<open>The doubles that the decimal literals of the generator denote.\<close>

lemma literals:
  "toDouble (1 / 10) = 3602879701896397 / 36028797018963968"
  "toDouble (2 / 10) = 3602879701896397 / 18014398509481984"
  "toDouble (5 / 100) = 3602879701896397 / 72057594037927936"
  "toDouble (2 / 100) = 5764607523034235 / 288230376151711744"
  "toDouble (1 / 100) = 5764607523034235 / 576460752303423488"
  by (simp_all add: double_eval)

text \<open>
  Two computations in which the rounding shows. A balance of 2.48 gives 0.57 per address
  in exact arithmetic and 0.56 in the source; and for \<open>Math.random() = 9/128\<close> the exact
  value of \<open>random * 0.05 + 0.01\<close> is 0.013515625, half-way between two decimals of
  eight places, while the double computed is just below it.
\<close>

lemma roundedAmount_example:
  "roundedAmount (amountPerAddress (toDouble (248 / 100)) 4) = toDouble (56 / 100)"
  by (simp add: number_defs double_eval)

lemma toFixed8_example:
  "toFixed8 (dadd (dmul (9 / 128) (toDouble (5 / 100))) (toDouble (1 / 100)))
     = toDouble (1351562 / 100000000)"
  by (simp add: number_defs double_eval)

text \<open>The exponent of a positive number.\<close>

lemma powi_nonneg: "0 \<le> k \<Longrightarrow> (2::rat) powi k = 2 ^ nat k"
  by (simp add: power_int_def)

lemma powi_neg: "0 \<le> k \<Longrightarrow> (2::rat) powi (- k) = 1 / 2 ^ nat k"
  by (cases "k = 0") (simp_all add: power_int_def field_simps)

lemma binade_bounds:
  assumes "0 < x"
  shows "2 powi (binade x) \<le> x" and "x < 2 powi (binade x + 1)"
proof -
  have "2 powi (binade x) \<le> x \<and> x < 2 powi (binade x + 1)"
  proof (cases "1 \<le> x")
    case True
    define n where "n = \<lfloor>x\<rfloor>"
    define k where "k = bitlen n"
    have n: "0 < n" using True by (simp add: n_def)
    have k: "0 < k" using n bitlen_eq_zero_iff [of n] bitlen_nonneg [of n] by (simp add: k_def)
    from bitlen_bounds [OF n] have b: "2 ^ nat (k - 1) \<le> n" "n < 2 ^ nat k"
      by (simp_all add: k_def)
    have "(2::rat) ^ nat (k - 1) = of_int (2 ^ nat (k - 1))" by simp
    also have "\<dots> \<le> of_int n" using b(1) by (simp only: of_int_le_iff)
    also have "\<dots> \<le> x" by (simp add: n_def)
    finally have lo: "(2::rat) ^ nat (k - 1) \<le> x" .
    have "n + 1 \<le> 2 ^ nat k" using b(2) by simp
    then have "(of_int (n + 1) :: rat) \<le> of_int (2 ^ nat k)" by (simp only: of_int_le_iff)
    moreover have "x < of_int (n + 1)" unfolding n_def by linarith
    ultimately have hi: "x < 2 ^ nat k" by simp
    have "binade x = k - 1" using True by (simp add: binade_def k_def n_def)
    then show ?thesis using lo hi k by (simp add: powi_nonneg)
  next
    case False
    define m where "m = \<lceil>1 / x\<rceil> - 1"
    define k where "k = bitlen m"
    have y: "1 < 1 / x" using False assms by simp
    then have "1 < \<lceil>1 / x\<rceil>" by (simp add: less_ceiling_iff)
    then have m: "0 < m" by (simp add: m_def)
    have k: "0 < k" using m bitlen_eq_zero_iff [of m] bitlen_nonneg [of m] by (simp add: k_def)
    from bitlen_bounds [OF m] have b: "2 ^ nat (k - 1) \<le> m" "m < 2 ^ nat k"
      by (simp_all add: k_def)
    have my: "of_int m < 1 / x" "1 / x \<le> of_int (m + 1)"
      by (simp_all add: m_def less_ceiling_iff [symmetric] ceiling_correct)
    have "m + 1 \<le> 2 ^ nat k" using b(2) by simp
    then have "(of_int (m + 1) :: rat) \<le> of_int (2 ^ nat k)" by (simp only: of_int_le_iff)
    with my(2) have "1 / x \<le> 2 ^ nat k" by simp
    then have lo: "1 / 2 ^ nat k \<le> x" using assms by (simp add: field_simps)
    have "(2::rat) ^ nat (k - 1) = of_int (2 ^ nat (k - 1))" by simp
    also have "\<dots> \<le> of_int m" using b(1) by (simp only: of_int_le_iff)
    also have "\<dots> < 1 / x" by (rule my(1))
    finally have "(2::rat) ^ nat (k - 1) < 1 / x" .
    then have hi: "x < 1 / 2 ^ nat (k - 1)" using assms by (simp add: field_simps)
    have e: "binade x = - k" using False by (simp add: binade_def k_def m_def)
    have "- k + 1 = - (k - 1)" by simp
    then have "(2::rat) powi (- k + 1) = 1 / 2 ^ nat (k - 1)"
      using powi_neg [of "k - 1"] k by simp
    then show ?thesis using lo hi k e by (simp add: powi_neg)
  qed
  then show "2 powi (binade x) \<le> x" and "x < 2 powi (binade x + 1)" by simp_all
qed

lemma binade_mono:
  assumes "0 < x" "x \<le> y"
  shows "binade x \<le> binade y"
proof (rule ccontr)
  assume "\<not> binade x \<le> binade y"
  then have "binade y + 1 \<le> binade x" by simp
  then have "(2::rat) powi (binade y + 1) \<le> 2 powi (binade x)"
    by (intro power_int_increasing) simp_all
  moreover have "y < 2 powi (binade y + 1)" using assms by (intro binade_bounds) simp
  moreover have "2 powi (binade x) \<le> x" using assms by (intro binade_bounds)
  ultimately show False using assms by simp
qed

text \<open>Rounding to the nearest integer keeps integers, is monotone and is symmetric.\<close>

lemma roundEven_of_int: "roundEven (of_int n) = n"
  by (simp add: roundEven_def)

lemma roundEven_bounds: "\<lfloor>y\<rfloor> \<le> roundEven y" "roundEven y \<le> \<lfloor>y\<rfloor> + 1"
  by (simp_all add: roundEven_def)

lemma roundEven_mono:
  assumes "x \<le> y"
  shows "roundEven x \<le> roundEven y"
proof (cases "\<lfloor>x\<rfloor> = \<lfloor>y\<rfloor>")
  case True
  then show ?thesis using assms by (auto simp add: roundEven_def)
next
  case False
  then have "\<lfloor>x\<rfloor> + 1 \<le> \<lfloor>y\<rfloor>" using floor_mono [OF assms] by simp
  then show ?thesis using roundEven_bounds(2) [of x] roundEven_bounds(1) [of y] by simp
qed

lemma roundEven_minus: "roundEven (- y) = - roundEven y"
proof (cases "y = of_int \<lfloor>y\<rfloor>")
  case True
  then obtain n where "y = of_int n" ..
  then have "roundEven (- y) = roundEven (of_int (- n))" by simp
  then show ?thesis using \<open>y = of_int n\<close> by (simp only: roundEven_of_int)
next
  case False
  have "of_int \<lfloor>y\<rfloor> \<le> y" by (rule of_int_floor_le)
  with False have lt: "of_int \<lfloor>y\<rfloor> < y" by (metis order_less_le)
  have fl: "\<lfloor>- y\<rfloor> = - \<lfloor>y\<rfloor> - 1" using lt by linarith
  have ev: "even (- \<lfloor>y\<rfloor> - 1) = odd \<lfloor>y\<rfloor>" by simp
  show ?thesis using lt unfolding roundEven_def fl ev by (auto simp add: algebra_simps)
qed

text \<open>Rounding to the nearest double is symmetric and monotone.\<close>

lemma ulp_pos: "0 < ulp x"
  by (simp add: ulp_def zero_less_power_int)

lemma ulp_minus: "ulp (- x) = ulp x"
  by (simp add: ulp_def)

lemma toDouble_minus: "toDouble (- x) = - toDouble x"
  by (simp add: toDouble_def ulp_minus roundEven_minus)

lemma toDouble_nonneg:
  assumes "0 \<le> x"
  shows "0 \<le> toDouble x"
proof -
  from assms have "0 \<le> x / ulp x" using ulp_pos [of x] by simp
  then have "roundEven 0 \<le> roundEven (x / ulp x)" by (rule roundEven_mono)
  then have "0 \<le> roundEven (x / ulp x)" using roundEven_of_int [of 0] by simp
  then show ?thesis using ulp_pos [of x] by (simp add: toDouble_def)
qed

lemma toDouble_mono_pos:
  assumes "0 < x" "x \<le> y"
  shows "toDouble x \<le> toDouble y"
proof -
  define e where "e = max (binade x) (- 1022)"
  define e' where "e' = max (binade y) (- 1022)"
  have y: "0 < y" using assms by simp
  have ux: "ulp x = 2 powi (e - 52)" using assms by (simp add: ulp_def e_def)
  have uy: "ulp y = 2 powi (e' - 52)" using y by (simp add: ulp_def e'_def)
  have le: "e \<le> e'" using binade_mono [OF assms] by (simp add: e_def e'_def)
  have Rx: "toDouble x = of_int (roundEven (x / ulp x)) * ulp x"
    using assms by (simp add: toDouble_def)
  have Ry: "toDouble y = of_int (roundEven (y / ulp y)) * ulp y"
    using y by (simp add: toDouble_def)
  show ?thesis
  proof (cases "e = e'")
    case True
    then have u: "ulp x = ulp y" by (simp add: ux uy)
    have "x / ulp y \<le> y / ulp y" using assms ulp_pos [of y] by (simp add: divide_right_mono)
    then have "roundEven (x / ulp y) \<le> roundEven (y / ulp y)" by (rule roundEven_mono)
    then have "(of_int (roundEven (x / ulp y)) :: rat) \<le> of_int (roundEven (y / ulp y))"
      by (simp only: of_int_le_iff)
    then show ?thesis unfolding Rx Ry u using ulp_pos [of y] by (simp add: mult_right_mono)
  next
    case False
    then have lt: "e + 1 \<le> e'" using le by simp
    then have e': "e' = binade y" by (auto simp add: e'_def e_def)
    have "x < 2 powi (binade x + 1)" using assms by (intro binade_bounds)
    also have "\<dots> \<le> 2 powi (e + 1)" by (intro power_int_increasing) (simp_all add: e_def)
    finally have "x \<le> 2 powi (e + 1)" by simp
    then have "x / ulp x \<le> 2 powi (e + 1) / ulp x"
      using ulp_pos [of x] by (simp add: divide_right_mono)
    also have "2 powi (e + 1) / ulp x = (2::rat) powi 53"
      unfolding ux by (simp add: power_int_diff [symmetric])
    finally have "x / ulp x \<le> of_int (2 ^ 53)" by simp
    then have "roundEven (x / ulp x) \<le> roundEven (of_int (2 ^ 53))" by (rule roundEven_mono)
    then have "roundEven (x / ulp x) \<le> 2 ^ 53" by (simp only: roundEven_of_int)
    then have "(of_int (roundEven (x / ulp x)) :: rat) \<le> of_int (2 ^ 53)"
      by (simp only: of_int_le_iff)
    then have "toDouble x \<le> of_int (2 ^ 53) * ulp x"
      unfolding Rx using ulp_pos [of x] by (intro mult_right_mono) simp_all
    also have "\<dots> = 2 powi (e + 1)"
    proof -
      have "e + 1 = 53 + (e - 52)" by simp
      then have "(2::rat) powi (e + 1) = 2 powi (53 + (e - 52))" by (rule arg_cong)
      also have "\<dots> = 2 powi 53 * 2 powi (e - 52)" by (rule power_int_add) simp
      finally show ?thesis unfolding ux by simp
    qed
    finally have a: "toDouble x \<le> 2 powi (e + 1)" .
    have "2 powi e' \<le> y" unfolding e' using y by (intro binade_bounds)
    then have "2 powi e' / ulp y \<le> y / ulp y"
      using ulp_pos [of y] by (simp add: divide_right_mono)
    moreover have "2 powi e' / ulp y = (2::rat) powi 52"
      unfolding uy by (simp add: power_int_diff [symmetric])
    ultimately have "of_int (2 ^ 52) \<le> y / ulp y" by simp
    then have "roundEven (of_int (2 ^ 52)) \<le> roundEven (y / ulp y)" by (rule roundEven_mono)
    then have "2 ^ 52 \<le> roundEven (y / ulp y)" by (simp only: roundEven_of_int)
    then have "(of_int (2 ^ 52) :: rat) \<le> of_int (roundEven (y / ulp y))"
      by (simp only: of_int_le_iff)
    then have "of_int (2 ^ 52) * ulp y \<le> toDouble y"
      unfolding Ry using ulp_pos [of y] by (intro mult_right_mono) simp_all
    moreover have "of_int (2 ^ 52) * ulp y = 2 powi e'"
    proof -
      have "e' = 52 + (e' - 52)" by simp
      then have "(2::rat) powi e' = 2 powi (52 + (e' - 52))" by (rule arg_cong)
      also have "\<dots> = 2 powi 52 * 2 powi (e' - 52)" by (rule power_int_add) simp
      finally show ?thesis unfolding uy by simp
    qed
    ultimately have b: "2 powi e' \<le> toDouble y" by simp
    have "(2::rat) powi (e + 1) \<le> 2 powi e'" using lt by (intro power_int_increasing) simp_all
    with a b show ?thesis by simp
  qed
qed

lemma toDouble_mono:
  assumes "x \<le> y"
  shows "toDouble x \<le> toDouble y"
proof -
  consider "0 < x" | "x \<le> 0" "0 \<le> y" | "y < 0" by linarith
  then show ?thesis
  proof cases
    case 1
    then show ?thesis using assms by (rule toDouble_mono_pos)
  next
    case 2
    then have "0 \<le> toDouble (- x)" "0 \<le> toDouble y" by (simp_all add: toDouble_nonneg)
    then show ?thesis by (simp add: toDouble_minus)
  next
    case 3
    then have "toDouble (- y) \<le> toDouble (- x)" using assms by (intro toDouble_mono_pos) simp_all
    then show ?thesis by (simp add: toDouble_minus)
  qed
qed

text \<open>A double that is at least a decimal is at least the literal of that decimal: for the
  numbers of the source, comparing with the literal \<open>0.1\<close> is comparing with 1/10.\<close>

lemma literal_le_double:
  assumes "toDouble b = b" and "q \<le> b"
  shows "toDouble q \<le> b"
  using toDouble_mono [OF assms(2)] assms(1) by simp

section \<open>Executing programs\<close>

text \<open>The definitions of the control operators and of the requests, for unfolding a whole
  program at once.\<close>

lemmas prog_defs = bindE_def returnE_def throwE_def catchE_def

lemmas rpc_defs = rpc_void_def rpc_string_def rpc_strings_def rpc_number_def rpc_info_def

text \<open>The same equations for a program applied to a world: they run a program step by
  step and leave the bodies of loops as they are written.\<close>

lemma bindE_apply:
  "bindE m f w = (case m w of (Inl e, w') \<Rightarrow> (Inl e, w') | (Inr x, w') \<Rightarrow> f x w')"
  by (simp add: bindE_def)

lemma catchE_apply:
  "catchE m h w = (case m w of (Inl e, w') \<Rightarrow> h e w' | (Inr x, w') \<Rightarrow> (Inr x, w'))"
  by (simp add: catchE_def)

lemma returnE_apply: "returnE x w = (Inr x, w)"
  by (simp add: returnE_def)

lemma throwE_apply: "throwE e w = (Inl e, w)"
  by (simp add: throwE_def)

lemma rpc_void_apply:
  "rpc_void E ctx c w =
     ((case answer_void E (trace w) (ctx, c) of Some e \<Rightarrow> Inl e | None \<Rightarrow> Inr ()),
      w\<lparr>trace := trace w @ [(ctx, c)]\<rparr>)"
  by (simp add: rpc_void_def)

lemma rpc_string_apply:
  "rpc_string E ctx c w
     = (answer_string E (trace w) (ctx, c), w\<lparr>trace := trace w @ [(ctx, c)]\<rparr>)"
  by (simp add: rpc_string_def)

lemma rpc_strings_apply:
  "rpc_strings E ctx c w
     = (answer_strings E (trace w) (ctx, c), w\<lparr>trace := trace w @ [(ctx, c)]\<rparr>)"
  by (simp add: rpc_strings_def)

lemma rpc_number_apply:
  "rpc_number E ctx c w
     = (answer_number E (trace w) (ctx, c), w\<lparr>trace := trace w @ [(ctx, c)]\<rparr>)"
  by (simp add: rpc_number_def)

lemma rpc_info_apply:
  "rpc_info E ctx c w
     = (answer_info E (trace w) (ctx, c), w\<lparr>trace := trace w @ [(ctx, c)]\<rparr>)"
  by (simp add: rpc_info_def)

lemma mathRandom_apply:
  "mathRandom E w = (Inr (random E (draws w)), w\<lparr>draws := Suc (draws w)\<rparr>)"
  by (simp add: mathRandom_def)

lemma fsWriteFile_apply:
  "fsWriteFile path doc w = (Inr (), w\<lparr>files := AList.update path doc (files w)\<rparr>)"
  by (simp add: fsWriteFile_def)

lemmas run_simps = bindE_apply catchE_apply returnE_apply throwE_apply rpc_void_apply
  rpc_string_apply rpc_strings_apply rpc_number_apply rpc_info_apply mathRandom_apply

text \<open>A \<open>catch\<close> block that only logs: the program returns, whatever the body did.\<close>

lemma catchE_swallow [simp]: "catchE m (\<lambda>error. returnE ()) w = (Inr (), snd (m w))"
  by (simp add: prog_defs split: prod.splits sum.splits)

lemma catchE_swallow_Pair [simp]: "catchE m (\<lambda>error. Pair (Inr ())) w = (Inr (), snd (m w))"
  using catchE_swallow [of m w] by (simp add: returnE_def)

lemma snd_rpc_void: "snd (rpc_void E ctx c w) = w\<lparr>trace := trace w @ [(ctx, c)]\<rparr>"
  by (simp add: rpc_void_apply)

lemma issued_append [simp]: "issued w (w'\<lparr>trace := trace w @ ts\<rparr>) = ts"
  by (simp add: issued_def)

text \<open>The counted loops of the generator, and the numbers in the wallet names.\<close>

lemma ranges:
  "[0..<2] = [0, 1]" "[0..<3] = [0, 1, 2]" "[0..<4] = [0, 1, 2, 3]"
  "[0..<8] = [0, 1, 2, 3, 4, 5, 6, 7]" "[1..<3] = [1, 2]"
  by (simp_all add: upt_rec)

lemma replicate_8: "replicate 8 x = [x, x, x, x, x, x, x, x]"
  by (simp add: numeral_eq_Suc)

lemma signer_numbers: "toString (0 + 1) = ''1''" "toString (1 + 1) = ''2''"
  "toString 1 = ''1''" "toString 2 = ''2''"
  by (simp_all add: toString_small digitChar_def)

text \<open>The definitions of the steps that set up the multisig wallet of a scenario, for
  running them on a sample node.\<close>

lemmas generator_defs = createMultisigWallet_def createSignerWallets_def loadOrCreateWallet_def
  fundWallet_def ensureMinerWallet_def extractWalletKeys_def parseDescriptors_def
  createMultisigAddress_def createWatcherWallet_def importMultisigDescriptor_def
  fundMultisigAddresses_def coordinatorOf_def

lemmas string_defs = matchAt_def isHex_def isAlnum_def toString_small digitChar_def

text \<open>Programs that send only requests of one kind.\<close>

lemma sendsOnly_returnE: "sendsOnly P (returnE x)"
  unfolding sendsOnly_def by (auto simp: returnE_apply intro: exI [of _ "[]"])

lemma sendsOnly_throwE: "sendsOnly P (throwE e)"
  unfolding sendsOnly_def by (auto simp: throwE_apply intro: exI [of _ "[]"])

lemma sendsOnly_bindE:
  assumes "sendsOnly P m" and "\<And>x. sendsOnly P (f x)"
  shows "sendsOnly P (bindE m f)"
  unfolding sendsOnly_def
proof
  fix w
  from assms(1) obtain ts where ts: "snd (m w) = w\<lparr>trace := trace w @ ts\<rparr>" "list_all P ts"
    unfolding sendsOnly_def by blast
  show "\<exists>us. snd (bindE m f w) = w\<lparr>trace := trace w @ us\<rparr> \<and> list_all P us"
  proof (cases "fst (m w)")
    case (Inl e)
    with ts show ?thesis
      by (intro exI [of _ ts]) (cases "m w", simp add: bindE_apply)
  next
    case (Inr x)
    from assms(2) [of x] obtain us where
      us: "snd (f x (snd (m w))) = (snd (m w))\<lparr>trace := trace (snd (m w)) @ us\<rparr>" "list_all P us"
      unfolding sendsOnly_def by blast
    with ts Inr show ?thesis
      by (intro exI [of _ "ts @ us"]) (cases "m w", simp add: bindE_apply)
  qed
qed

lemma sendsOnly_catchE:
  assumes "sendsOnly P m" and "\<And>e. sendsOnly P (h e)"
  shows "sendsOnly P (catchE m h)"
  unfolding sendsOnly_def
proof
  fix w
  from assms(1) obtain ts where ts: "snd (m w) = w\<lparr>trace := trace w @ ts\<rparr>" "list_all P ts"
    unfolding sendsOnly_def by blast
  show "\<exists>us. snd (catchE m h w) = w\<lparr>trace := trace w @ us\<rparr> \<and> list_all P us"
  proof (cases "fst (m w)")
    case (Inr x)
    with ts show ?thesis
      by (intro exI [of _ ts]) (cases "m w", simp add: catchE_apply)
  next
    case (Inl e)
    from assms(2) [of e] obtain us where
      us: "snd (h e (snd (m w))) = (snd (m w))\<lparr>trace := trace (snd (m w)) @ us\<rparr>" "list_all P us"
      unfolding sendsOnly_def by blast
    with ts Inl show ?thesis
      by (intro exI [of _ "ts @ us"]) (cases "m w", simp add: catchE_apply)
  qed
qed

lemma sendsOnly_if:
  assumes "c \<Longrightarrow> sendsOnly P m" and "\<not> c \<Longrightarrow> sendsOnly P m'"
  shows "sendsOnly P (if c then m else m')"
  using assms by simp

lemma sendsOnly_rpc:
  assumes "P (ctx, c)"
  shows "sendsOnly P (rpc_void E ctx c)" "sendsOnly P (rpc_string E ctx c)"
    "sendsOnly P (rpc_strings E ctx c)" "sendsOnly P (rpc_number E ctx c)"
    "sendsOnly P (rpc_info E ctx c)"
  unfolding sendsOnly_def using assms
  by (auto simp: run_simps intro!: exI [of _ "[(ctx, c)]"])

text \<open>What a sample node answers.\<close>

lemma sampleEnv_simps [simp]:
  "answer_void (sampleEnv v ws ds bal) = v"
  "answer_string (sampleEnv v ws ds bal) h r = Inr (replicate (Suc (length h)) CHR ''a'')"
  "answer_strings (sampleEnv v ws ds bal) h (c, Listwallets) = ws"
  "answer_strings (sampleEnv v ws ds bal) h (c, Listdescriptors) = ds"
  "answer_number (sampleEnv v ws ds bal) h r = bal (fst r)"
  "answer_info (sampleEnv v ws ds bal) h r = Inr (''regtest'', 200)"
  "random (sampleEnv v ws ds bal) n = (if n = 0 then 1 / 2 else 0)"
  "toString36 (sampleEnv v ws ds bal) x = (if x = 0 then ''0'' else ''0.i'')"
  by (simp_all add: sampleEnv_def)

section \<open>Key extraction\<close>

lemma extractWalletKeys_fallback:
  assumes "fallsBack E wallet w"
  shows "extractWalletKeys E wallet index w =
    (Inr (fallbackKeys index (toString36 E (random E (draws w)))),
     w\<lparr>trace := trace w @ [(Some wallet, Listdescriptors)], draws := Suc (draws w)\<rparr>)"
  using assms
  by (auto simp: extractWalletKeys_def fallsBack_def prog_defs rpc_defs mathRandom_def
      split: sum.splits)

lemma fallbackXfp_fourDigits:
  assumes "index + 1 < 10000"
  shows "fallbackXfp index = fourDigits (index + 1) @ fourDigits (index + 1)"
  using padStart_toString [OF assms] by (simp add: fallbackXfp_def)

lemma keylessNode_fallsBack: "fallsBack keylessNode wallet w"
  by (simp add: fallsBack_def keylessNode_def)

lemma fallbackXfp_0: "fallbackXfp 0 = ''00010001''"
  using fallbackXfp_fourDigits [of 0] by (simp add: fourDigits_def digitChar_def)

text \<open>
  Claim C5, as the code has it. When key extraction falls back, the fingerprint is the
  signer's number \<open>signerIndex + 1\<close> (not \<open>signerIndex\<close>), written as four zero-padded
  decimal digits, twice: eight characters as long as \<open>signerIndex + 1\<close> has at most four
  digits.
\<close>

theorem fallback_fingerprint:
  assumes "fallsBack E wallet w" and "index + 1 < 10000"
  shows "\<exists>keys w'. extractWalletKeys E wallet index w = (Inr keys, w')
           \<and> k_xfp keys = fourDigits (index + 1) @ fourDigits (index + 1)
           \<and> length (k_xfp keys) = 8"
  using extractWalletKeys_fallback [OF assms(1), of index] fallbackXfp_fourDigits [OF assms(2)]
  by (simp add: fallbackKeys_def fourDigits_def)

theorem fallback_fingerprint_witness:
  "\<exists>keys w'. extractWalletKeys keylessNode ''bad_privacy_signer_1'' 0 world0 = (Inr keys, w')
     \<and> k_xfp keys = ''00010001'' \<and> length (k_xfp keys) = 8"
proof -
  have "(0::nat) + 1 < 10000" by simp
  with keylessNode_fallsBack show ?thesis
    using fallback_fingerprint [of keylessNode "''bad_privacy_signer_1''" world0 0]
    by (simp add: fourDigits_def digitChar_def)
qed

text \<open>
  For signer index 0 the fallback fingerprint is \<open>00010001\<close>, while index 0 written as
  four digits twice is \<open>00000000\<close>.
\<close>

theorem fallback_fingerprint_counterexample:
  "fst (extractWalletKeys keylessNode ''bad_privacy_signer_1'' 0 world0)
     = Inr (fallbackKeys 0 ''0.i'')
   \<and> k_xfp (fallbackKeys 0 ''0.i'') = ''00010001''
   \<and> fourDigits 0 @ fourDigits 0 = ''00000000''
   \<and> k_xfp (fallbackKeys 0 ''0.i'') \<noteq> fourDigits 0 @ fourDigits 0"
proof -
  have "fst (extractWalletKeys keylessNode ''bad_privacy_signer_1'' 0 world0)
      = Inr (fallbackKeys 0 ''0.i'')"
    unfolding extractWalletKeys_fallback [OF keylessNode_fallsBack]
    by (simp add: keylessNode_def world0_def)
  moreover have "k_xfp (fallbackKeys 0 ''0.i'') = ''00010001''"
    by (simp add: fallbackKeys_def fallbackXfp_0)
  moreover have "fourDigits 0 @ fourDigits 0 = ''00000000''"
    by (simp add: fourDigits_def digitChar_def)
  ultimately show ?thesis by simp
qed

text \<open>
  Claim C4, evaluated. Two fallback extractions for the same signer index 0 in one run,
  on a node whose \<open>listdescriptors\<close> fails: the random source returns 0.5 and then 0, and
  the two placeholder xpubs differ, while fingerprint and path agree.
\<close>

theorem fallback_xpub_not_deterministic:
  "fst (extractWalletKeys keylessNode ''bad_privacy_signer_1'' 0 world0)
     = Inr \<lparr> k_xfp = ''00010001'', k_xpub = ''tpub661MyMwAqRbcFi'',
             k_bip32Path = ''m/84'' @ [CHR 0x27] @ ''/1'' @ [CHR 0x27] @ ''/0'' @ [CHR 0x27] \<rparr>
   \<and> fst (extractWalletKeys keylessNode ''bad_waste_signer_1'' 0
          (snd (extractWalletKeys keylessNode ''bad_privacy_signer_1'' 0 world0)))
     = Inr \<lparr> k_xfp = ''00010001'', k_xpub = ''tpub661MyMwAqRbcF'',
             k_bip32Path = ''m/84'' @ [CHR 0x27] @ ''/1'' @ [CHR 0x27] @ ''/0'' @ [CHR 0x27] \<rparr>"
proof -
  have draws: "toString36 keylessNode (random keylessNode 0) = ''0.i''"
    "toString36 keylessNode (random keylessNode (Suc 0)) = ''0''"
    by (simp_all add: keylessNode_def)
  show ?thesis
    unfolding extractWalletKeys_fallback [OF keylessNode_fallsBack]
    by (simp add: fallbackKeys_def fallbackXfp_0 substring_def world0_def draws)
qed

section \<open>The descriptor of the watcher\<close>

lemma importMultisigDescriptor_run:
  "importMultisigDescriptor E watcher signers w =
     (Inr (), w\<lparr>trace := trace w @
        [(Some watcher,
          Importdescriptors (multisigDescriptor (map s_xpub signers)) True 0 100 ''now'')]\<rparr>)"
  by (simp add: importMultisigDescriptor_def prog_defs rpc_defs split: option.splits)

text \<open>
  Claim C6. The descriptor lists the xpubs in sorted order: for two xpubs \<open>a \<le> b\<close>
  supplied as \<open>[b, a]\<close> or as \<open>[a, b]\<close> it is \<open>wsh(sortedmulti(2,a/0/*,b/0/*))\<close>; in
  general it is built from a sorted arrangement of the xpubs supplied; and any
  permutation of the signers makes \<open>importMultisigDescriptor\<close> the same program, which
  sends exactly one \<open>importdescriptors\<close> request, with that descriptor.
\<close>

theorem descriptor_order_independent:
  "(a \<le> b \<longrightarrow>
      multisigDescriptor [b, a] = ''wsh(sortedmulti(2,'' @ a @ ''/0/*,'' @ b @ ''/0/*))''
      \<and> multisigDescriptor [a, b] = multisigDescriptor [b, a])
   \<and> (\<exists>ys. sorted ys \<and> mset ys = mset xs
         \<and> multisigDescriptor xs
             = ''wsh(sortedmulti(2,'' @ join '','' (map (\<lambda>x. x @ ''/0/*'') ys) @ ''))'')
   \<and> (mset signers' = mset signers \<longrightarrow>
         importMultisigDescriptor E watcher signers' = importMultisigDescriptor E watcher signers)
   \<and> issued w (snd (importMultisigDescriptor E watcher signers w))
       = [(Some watcher,
           Importdescriptors (multisigDescriptor (map s_xpub signers)) True 0 100 ''now'')]"
proof (intro conjI impI)
  assume "a \<le> b"
  then show "multisigDescriptor [b, a]
      = ''wsh(sortedmulti(2,'' @ a @ ''/0/*,'' @ b @ ''/0/*))''"
    by (rule multisigDescriptor_pair)
next
  show "multisigDescriptor [a, b] = multisigDescriptor [b, a]"
    by (rule multisigDescriptor_cong) simp
next
  have "sorted (sort xs) \<and> mset (sort xs) = mset xs
      \<and> multisigDescriptor xs
          = ''wsh(sortedmulti(2,'' @ join '','' (map (\<lambda>x. x @ ''/0/*'') (sort xs)) @ ''))''"
    by (simp add: multisigDescriptor_def)
  then show "\<exists>ys. sorted ys \<and> mset ys = mset xs
      \<and> multisigDescriptor xs
          = ''wsh(sortedmulti(2,'' @ join '','' (map (\<lambda>x. x @ ''/0/*'') ys) @ ''))''"
    by blast
next
  assume "mset signers' = mset signers"
  then have "mset (map s_xpub signers') = mset (map s_xpub signers)"
    by (metis mset_map)
  then have "multisigDescriptor (map s_xpub signers') = multisigDescriptor (map s_xpub signers)"
    by (rule multisigDescriptor_cong)
  then show "importMultisigDescriptor E watcher signers'
      = importMultisigDescriptor E watcher signers"
    by (simp add: importMultisigDescriptor_def)
next
  show "issued w (snd (importMultisigDescriptor E watcher signers w))
      = [(Some watcher,
          Importdescriptors (multisigDescriptor (map s_xpub signers)) True 0 100 ''now'')]"
    by (simp add: importMultisigDescriptor_run)
qed

theorem descriptor_order_independent_witness:
  "''tpubA'' \<le> ''tpubB''
   \<and> multisigDescriptor [''tpubB'', ''tpubA''] = ''wsh(sortedmulti(2,tpubA/0/*,tpubB/0/*))''
   \<and> multisigDescriptor [''tpubA'', ''tpubB''] = ''wsh(sortedmulti(2,tpubA/0/*,tpubB/0/*))''
   \<and> mset (rev sampleSigners) = mset sampleSigners
   \<and> importMultisigDescriptor healthyNode ''bad_privacy_watcher'' (rev sampleSigners)
      = importMultisigDescriptor healthyNode ''bad_privacy_watcher'' sampleSigners
   \<and> issued world0
        (snd (importMultisigDescriptor healthyNode ''bad_privacy_watcher'' sampleSigners
               world0))
      = [(Some ''bad_privacy_watcher'',
          Importdescriptors ''wsh(sortedmulti(2,tpubA/0/*,tpubB/0/*))'' True 0 100 ''now'')]"
proof -
  have le: "''tpubA'' \<le> ''tpubB''"
    by code_simp
  have perm: "mset (rev sampleSigners) = mset sampleSigners"
    by simp
  have xpubs: "map s_xpub sampleSigners = [''tpubB'', ''tpubA'']"
    by (simp add: sampleSigners_def coordinatorSigner_def secondSigner_def)
  show ?thesis
    using le perm
      descriptor_order_independent
        [of "''tpubA''" "''tpubB''" "[]" "rev sampleSigners" sampleSigners healthyNode
          "''bad_privacy_watcher''" world0]
    by (simp add: xpubs)
qed

section \<open>Wallet lifecycle\<close>

lemma loadOrCreateWallet_run:
  "loadOrCreateWallet E walletName d w =
     (case answer_strings E (trace w) (None, Listwallets) of
        Inl e \<Rightarrow> (Inl e, w\<lparr>trace := trace w @ [(None, Listwallets)]\<rparr>)
      | Inr ws \<Rightarrow>
          if walletName \<in> set ws then (Inr (), w\<lparr>trace := trace w @ [(None, Listwallets)]\<rparr>)
          else
            (case answer_void E (trace w @ [(None, Listwallets)]) (None, Loadwallet walletName) of
               None \<Rightarrow>
                 (Inr (),
                  w\<lparr>trace := trace w @ [(None, Listwallets), (None, Loadwallet walletName)]\<rparr>)
             | Some e \<Rightarrow>
                 if err_code e = Some (- 18)
                 then
                   ((case answer_void E
                           (trace w @ [(None, Listwallets), (None, Loadwallet walletName)])
                           (None, Createwallet walletName d False (Some ([], False, True))) of
                       None \<Rightarrow> Inr () | Some e' \<Rightarrow> Inl e'),
                    w\<lparr>trace := trace w @ [(None, Listwallets), (None, Loadwallet walletName),
                      (None, Createwallet walletName d False (Some ([], False, True)))]\<rparr>)
                 else
                   (Inl e,
                    w\<lparr>trace :=
                      trace w @ [(None, Listwallets), (None, Loadwallet walletName)]\<rparr>)))"
  by (auto simp: loadOrCreateWallet_def prog_defs rpc_defs split: option.splits sum.splits)

text \<open>\<open>createSignerWallets\<close> returns the two signers of the scenario, or throws.\<close>

lemma createSignerWallets_result:
  assumes "createSignerWallets E scenario w = (Inr signers, w')"
  shows "map s_wallet signers = [scenario @ ''_signer_1'', scenario @ ''_signer_2'']"
  using assms
  unfolding createSignerWallets_def ranges foldE.simps signer_numbers
  by (auto simp: bindE_apply returnE_apply split: prod.splits sum.splits)

text \<open>An error thrown by the step for the first signer, for the second signer (after the
  round of the first has ended normally) or for the watcher ends \<open>createSignerWallets\<close> and
  \<open>createWatcherWallet\<close>, and with them \<open>createMultisigWallet\<close>.\<close>

lemma createSignerWallets_aborts:
  assumes "loadOrCreateWallet E (scenario @ ''_signer_1'') False w = (Inl e, w')"
  shows "createSignerWallets E scenario w = (Inl e, w')"
  using assms
  unfolding createSignerWallets_def upt_rec [of 0 2] foldE.simps
  by (simp add: bindE_def toString_small digitChar_def)

lemma createSignerWallets_aborts_second:
  assumes "loadOrCreateWallet E (scenario @ ''_signer_1'') False w = (Inr (), w1)"
    and "fundWallet E (scenario @ ''_signer_1'') w1 = (Inr (), w2)"
    and "extractWalletKeys E (scenario @ ''_signer_1'') 0 w2 = (Inr keys, w3)"
    and "loadOrCreateWallet E (scenario @ ''_signer_2'') False w3 = (Inl e, w')"
  shows "createSignerWallets E scenario w = (Inl e, w')"
  using assms
  unfolding createSignerWallets_def ranges foldE.simps signer_numbers
  by (simp add: bindE_apply returnE_apply)

lemma createWatcherWallet_aborts:
  assumes "loadOrCreateWallet E (scenario @ ''_watcher'') True w = (Inl e, w')"
  shows "createWatcherWallet E scenario signers w = (Inl e, w')"
  using assms by (simp add: createWatcherWallet_def bindE_def)

lemma createMultisigWallet_aborts:
  assumes "createSignerWallets E scenario w = (Inl e, w')"
  shows "createMultisigWallet E scenario w = (Inl e, w')"
  using assms by (simp add: createMultisigWallet_def bindE_apply)

lemma createMultisigWallet_aborts_watcher:
  assumes "createSignerWallets E scenario w = (Inr signers, w1)"
    and "createMultisigAddress E signers w1 = (Inr (multisigAddress, addresses), w2)"
    and "createWatcherWallet E scenario signers w2 = (Inl e, w')"
  shows "createMultisigWallet E scenario w = (Inl e, w')"
  using assms by (simp add: createMultisigWallet_def bindE_apply)

text \<open>
  Claim C7. The wallet-ensure step, for a signer (\<open>d = False\<close>) and for the watcher
  (\<open>d = True\<close>), in all its cases: a wallet that is listed is neither loaded nor created;
  one that loads is not created; \<open>createwallet\<close> is sent exactly when \<open>loadwallet\<close>
  failed with code -18; a load failure with any other code is thrown, and so is a
  failure of \<open>listwallets\<close>. An error thrown by the step ends \<open>createSignerWallets\<close>
  (be it thrown for the first signer, or for the second after the round of the first)
  and \<open>createWatcherWallet\<close> with that error, before anything else is sent, and an error
  that ends either of them ends \<open>createMultisigWallet\<close> with that error.
\<close>

theorem loadOrCreateWallet_cases:
  "(answer_strings E (trace w) (None, Listwallets) = Inr ws \<and> walletName \<in> set ws \<longrightarrow>
      loadOrCreateWallet E walletName d w
        = (Inr (), w\<lparr>trace := trace w @ [(None, Listwallets)]\<rparr>))
   \<and> (answer_strings E (trace w) (None, Listwallets) = Inr ws \<and> walletName \<notin> set ws
       \<and> answer_void E (trace w @ [(None, Listwallets)]) (None, Loadwallet walletName) = None
      \<longrightarrow>
      loadOrCreateWallet E walletName d w
        = (Inr (),
           w\<lparr>trace := trace w @ [(None, Listwallets), (None, Loadwallet walletName)]\<rparr>))
   \<and> (answer_strings E (trace w) (None, Listwallets) = Inr ws \<and> walletName \<notin> set ws
       \<and> answer_void E (trace w @ [(None, Listwallets)]) (None, Loadwallet walletName) = Some e
       \<and> err_code e = Some (- 18) \<longrightarrow>
      loadOrCreateWallet E walletName d w
        = ((case answer_void E
                   (trace w @ [(None, Listwallets), (None, Loadwallet walletName)])
                   (None, Createwallet walletName d False (Some ([], False, True))) of
              None \<Rightarrow> Inr () | Some e' \<Rightarrow> Inl e'),
           w\<lparr>trace := trace w @ [(None, Listwallets), (None, Loadwallet walletName),
              (None, Createwallet walletName d False (Some ([], False, True)))]\<rparr>))
   \<and> (answer_strings E (trace w) (None, Listwallets) = Inr ws \<and> walletName \<notin> set ws
       \<and> answer_void E (trace w @ [(None, Listwallets)]) (None, Loadwallet walletName) = Some e
       \<and> err_code e \<noteq> Some (- 18) \<longrightarrow>
      loadOrCreateWallet E walletName d w
        = (Inl e,
           w\<lparr>trace := trace w @ [(None, Listwallets), (None, Loadwallet walletName)]\<rparr>))
   \<and> (answer_strings E (trace w) (None, Listwallets) = Inl e \<longrightarrow>
      loadOrCreateWallet E walletName d w
        = (Inl e, w\<lparr>trace := trace w @ [(None, Listwallets)]\<rparr>))
   \<and> (loadOrCreateWallet E (scenario @ ''_signer_1'') False w = (Inl e, w') \<longrightarrow>
      createSignerWallets E scenario w = (Inl e, w'))
   \<and> (loadOrCreateWallet E (scenario @ ''_watcher'') True w = (Inl e, w') \<longrightarrow>
      createWatcherWallet E scenario signers w = (Inl e, w'))
   \<and> (loadOrCreateWallet E (scenario @ ''_signer_1'') False w = (Inr (), w_loaded)
       \<and> fundWallet E (scenario @ ''_signer_1'') w_loaded = (Inr (), w_funded)
       \<and> extractWalletKeys E (scenario @ ''_signer_1'') 0 w_funded = (Inr keys, w_keys)
       \<and> loadOrCreateWallet E (scenario @ ''_signer_2'') False w_keys = (Inl e, w') \<longrightarrow>
      createSignerWallets E scenario w = (Inl e, w'))
   \<and> (createSignerWallets E scenario w = (Inl e, w') \<longrightarrow>
      createMultisigWallet E scenario w = (Inl e, w'))
   \<and> (createSignerWallets E scenario w = (Inr signers, w_signers)
       \<and> createMultisigAddress E signers w_signers
           = (Inr (multisigAddress, addresses), w_addresses)
       \<and> createWatcherWallet E scenario signers w_addresses = (Inl e, w') \<longrightarrow>
      createMultisigWallet E scenario w = (Inl e, w'))"
  using createSignerWallets_aborts [of E scenario w e w']
    createWatcherWallet_aborts [of E scenario w e w' signers]
    createSignerWallets_aborts_second [of E scenario w w_loaded w_funded keys w_keys e w']
    createMultisigWallet_aborts [of E scenario w e w']
    createMultisigWallet_aborts_watcher [of E scenario w signers w_signers multisigAddress
      addresses w_addresses e w']
  by (simp add: loadOrCreateWallet_run)

theorem loadOrCreateWallet_cases_witness:
  "loadOrCreateWallet loadedNode ''bad_privacy_watcher'' True world0
     = (Inr (), world0\<lparr>trace := [(None, Listwallets)]\<rparr>)
   \<and> loadOrCreateWallet healthyNode ''bad_privacy_signer_1'' False world0
     = (Inr (),
        world0\<lparr>trace := [(None, Listwallets), (None, Loadwallet ''bad_privacy_signer_1'')]\<rparr>)
   \<and> loadOrCreateWallet missingWalletNode ''bad_privacy_signer_1'' False world0
     = (Inr (),
        world0\<lparr>trace := [(None, Listwallets), (None, Loadwallet ''bad_privacy_signer_1''),
          (None, Createwallet ''bad_privacy_signer_1'' False False (Some ([], False, True)))]\<rparr>)
   \<and> loadOrCreateWallet busyWalletNode ''bad_privacy_signer_1'' False world0
     = (Inl walletBusy,
        world0\<lparr>trace := [(None, Listwallets), (None, Loadwallet ''bad_privacy_signer_1'')]\<rparr>)
   \<and> loadOrCreateWallet unreachableNode ''bad_privacy_signer_1'' False world0
     = (Inl connectionRefused, world0\<lparr>trace := [(None, Listwallets)]\<rparr>)
   \<and> createSignerWallets busyWalletNode ''bad_privacy'' world0
     = (Inl walletBusy,
        world0\<lparr>trace := [(None, Listwallets), (None, Loadwallet ''bad_privacy_signer_1'')]\<rparr>)
   \<and> createWatcherWallet busyWalletNode ''bad_privacy'' sampleSigners world0
     = (Inl walletBusy,
        world0\<lparr>trace := [(None, Listwallets), (None, Loadwallet ''bad_privacy_watcher'')]\<rparr>)
   \<and> createSignerWallets secondSignerBusyNode ''bad_privacy'' world0
     = (Inl walletBusy,
        \<lparr> trace =
            [(None, Listwallets), (None, Loadwallet ''bad_privacy_signer_1''),
             (Some ''bad_privacy_signer_1'', Getbalance),
             (Some ''bad_privacy_signer_1'', Listdescriptors),
             (None, Listwallets), (None, Loadwallet ''bad_privacy_signer_2'')],
          draws = 1, files = [] \<rparr>)
   \<and> createMultisigWallet busyWalletNode ''bad_privacy'' world0
     = (Inl walletBusy,
        world0\<lparr>trace := [(None, Listwallets), (None, Loadwallet ''bad_privacy_signer_1'')]\<rparr>)
   \<and> fst (createMultisigWallet watcherBusyNode ''bad_privacy'' world0) = Inl walletBusy
   \<and> last (trace (snd (createMultisigWallet watcherBusyNode ''bad_privacy'' world0)))
     = (None, Loadwallet ''bad_privacy_watcher'')"
proof -
  have loaded: "loadOrCreateWallet loadedNode ''bad_privacy_watcher'' True world0
     = (Inr (), world0\<lparr>trace := [(None, Listwallets)]\<rparr>)"
    using loadOrCreateWallet_cases
      [where E = loadedNode and w = world0 and ws = "[''bad_privacy_watcher'']"
        and walletName = "''bad_privacy_watcher''" and d = True]
    by (simp add: world0_def loadedNode_def)
  have loads: "loadOrCreateWallet healthyNode ''bad_privacy_signer_1'' False world0
     = (Inr (),
        world0\<lparr>trace := [(None, Listwallets), (None, Loadwallet ''bad_privacy_signer_1'')]\<rparr>)"
    using loadOrCreateWallet_cases
      [where E = healthyNode and w = world0 and ws = "[]"
        and walletName = "''bad_privacy_signer_1''" and d = False]
    by (simp add: world0_def healthyNode_def allAccepted_def)
  have creates: "loadOrCreateWallet missingWalletNode ''bad_privacy_signer_1'' False world0
     = (Inr (),
        world0\<lparr>trace := [(None, Listwallets), (None, Loadwallet ''bad_privacy_signer_1''),
          (None, Createwallet ''bad_privacy_signer_1'' False False (Some ([], False, True)))]\<rparr>)"
    using loadOrCreateWallet_cases
      [where E = missingWalletNode and w = world0 and ws = "[''miner'']"
        and walletName = "''bad_privacy_signer_1''" and e = walletNotFound and d = False]
    by (simp add: world0_def missingWalletNode_def loadFails_def walletNotFound_def)
  have busy: "loadOrCreateWallet busyWalletNode (''bad_privacy'' @ suffix) d world0
     = (Inl walletBusy,
        world0\<lparr>trace := [(None, Listwallets), (None, Loadwallet (''bad_privacy'' @ suffix))]\<rparr>)"
    for suffix d
    using loadOrCreateWallet_cases
      [where E = busyWalletNode and w = world0 and ws = "[''miner'']"
        and walletName = "''bad_privacy'' @ suffix" and e = walletBusy and d = d]
    by (simp add: world0_def busyWalletNode_def loadFails_def walletBusy_def)
  have unreachable: "loadOrCreateWallet unreachableNode ''bad_privacy_signer_1'' False world0
     = (Inl connectionRefused, world0\<lparr>trace := [(None, Listwallets)]\<rparr>)"
    using loadOrCreateWallet_cases
      [where E = unreachableNode and w = world0 and e = connectionRefused
        and walletName = "''bad_privacy_signer_1''" and d = False]
    by (simp add: world0_def unreachableNode_def)
  have signers: "createSignerWallets busyWalletNode ''bad_privacy'' world0
     = (Inl walletBusy,
        world0\<lparr>trace := [(None, Listwallets), (None, Loadwallet ''bad_privacy_signer_1'')]\<rparr>)"
    using busy [of "''_signer_1''" False] loadOrCreateWallet_cases
      [where E = busyWalletNode and w = world0 and scenario = "''bad_privacy''"
        and e = walletBusy
        and w' = "world0\<lparr>trace :=
          [(None, Listwallets), (None, Loadwallet ''bad_privacy_signer_1'')]\<rparr>"]
    by simp
  have watcher: "createWatcherWallet busyWalletNode ''bad_privacy'' sampleSigners world0
     = (Inl walletBusy,
        world0\<lparr>trace := [(None, Listwallets), (None, Loadwallet ''bad_privacy_watcher'')]\<rparr>)"
    using busy [of "''_watcher''" True] loadOrCreateWallet_cases
      [where E = busyWalletNode and w = world0 and scenario = "''bad_privacy''"
        and e = walletBusy and signers = sampleSigners
        and w' = "world0\<lparr>trace :=
          [(None, Listwallets), (None, Loadwallet ''bad_privacy_watcher'')]\<rparr>"]
    by simp
  have second: "createSignerWallets secondSignerBusyNode ''bad_privacy'' world0
     = (Inl walletBusy,
        \<lparr> trace =
            [(None, Listwallets), (None, Loadwallet ''bad_privacy_signer_1''),
             (Some ''bad_privacy_signer_1'', Getbalance),
             (Some ''bad_privacy_signer_1'', Listdescriptors),
             (None, Listwallets), (None, Loadwallet ''bad_privacy_signer_2'')],
          draws = 1, files = [] \<rparr>)"
  proof -
    let ?E = secondSignerBusyNode
    let ?s1 = "''bad_privacy_signer_1''"
    let ?s2 = "''bad_privacy_signer_2''"
    let ?w1 = "\<lparr> trace = [(None, Listwallets), (None, Loadwallet ?s1)],
      draws = 0, files = [] \<rparr>"
    let ?w2 = "\<lparr> trace = [(None, Listwallets), (None, Loadwallet ?s1), (Some ?s1, Getbalance)],
      draws = 0, files = [] \<rparr>"
    let ?w3 = "\<lparr> trace = [(None, Listwallets), (None, Loadwallet ?s1), (Some ?s1, Getbalance),
        (Some ?s1, Listdescriptors)],
      draws = 1, files = [] \<rparr>"
    let ?w4 = "\<lparr> trace = [(None, Listwallets), (None, Loadwallet ?s1), (Some ?s1, Getbalance),
        (Some ?s1, Listdescriptors), (None, Listwallets), (None, Loadwallet ?s2)],
      draws = 1, files = [] \<rparr>"
    have r1: "loadOrCreateWallet ?E ?s1 False world0 = (Inr (), ?w1)"
      using loadOrCreateWallet_cases
        [where E = ?E and w = world0 and ws = "[''miner'']" and walletName = ?s1
          and d = False]
      by (simp add: world0_def secondSignerBusyNode_def loadFailsFor_def)
    have r2: "fundWallet ?E ?s1 ?w1 = (Inr (), ?w2)"
      by (simp add: fundWallet_def run_simps secondSignerBusyNode_def)
    have r3: "extractWalletKeys ?E ?s1 0 ?w2 = (Inr (fallbackKeys 0 ''0.i''), ?w3)"
      by (simp add: extractWalletKeys_def parseDescriptors_def run_simps
          secondSignerBusyNode_def)
    have r4: "loadOrCreateWallet ?E ?s2 False ?w3 = (Inl walletBusy, ?w4)"
      using loadOrCreateWallet_cases
        [where E = ?E and w = ?w3 and ws = "[''miner'']" and walletName = ?s2
          and e = walletBusy and d = False]
      by (simp add: secondSignerBusyNode_def loadFailsFor_def walletBusy_def)
    show ?thesis
      using r1 r2 r3 r4 loadOrCreateWallet_cases
        [where E = ?E and w = world0 and scenario = "''bad_privacy''" and w_loaded = ?w1
          and w_funded = ?w2 and w_keys = ?w3 and keys = "fallbackKeys 0 ''0.i''" and e = walletBusy
          and w' = ?w4]
      by simp
  qed
  have multisig: "createMultisigWallet busyWalletNode ''bad_privacy'' world0
     = (Inl walletBusy,
        world0\<lparr>trace := [(None, Listwallets), (None, Loadwallet ''bad_privacy_signer_1'')]\<rparr>)"
    using signers loadOrCreateWallet_cases
      [where E = busyWalletNode and w = world0 and scenario = "''bad_privacy''"
        and e = walletBusy
        and w' = "world0\<lparr>trace :=
          [(None, Listwallets), (None, Loadwallet ''bad_privacy_signer_1'')]\<rparr>"]
    by simp
  have late: "fst (createMultisigWallet watcherBusyNode ''bad_privacy'' world0) = Inl walletBusy
    \<and> last (trace (snd (createMultisigWallet watcherBusyNode ''bad_privacy'' world0)))
      = (None, Loadwallet ''bad_privacy_watcher'')"
  proof -
    let ?E = watcherBusyNode
    have "\<not> isl (fst (createSignerWallets ?E ''bad_privacy'' world0))"
      unfolding generator_defs ranges signer_numbers
      by (simp add: run_simps watcherBusyNode_def world0_def loadFailsFor_def)
    then obtain signers w1 where
      s: "createSignerWallets ?E ''bad_privacy'' world0 = (Inr signers, w1)"
      by (cases "createSignerWallets ?E ''bad_privacy'' world0";
          cases "fst (createSignerWallets ?E ''bad_privacy'' world0)") auto
    from createSignerWallets_result [OF s] obtain s1 s2 where signers: "signers = [s1, s2]"
      by auto
    have "\<not> isl (fst (createMultisigAddress ?E signers w1))"
      unfolding signers createMultisigAddress_def coordinatorOf_def ranges
      by (simp add: run_simps watcherBusyNode_def)
    then obtain multisigAddress addresses w2 where
      a: "createMultisigAddress ?E signers w1 = (Inr (multisigAddress, addresses), w2)"
      by (cases "createMultisigAddress ?E signers w1";
          cases "fst (createMultisigAddress ?E signers w1)") auto
    let ?w' = "w2\<lparr>trace :=
      trace w2 @ [(None, Listwallets), (None, Loadwallet ''bad_privacy_watcher'')]\<rparr>"
    have l: "loadOrCreateWallet ?E (''bad_privacy'' @ ''_watcher'') True w2
        = (Inl walletBusy, ?w')"
      using loadOrCreateWallet_cases
        [where E = ?E and w = w2 and ws = "[''miner'']"
          and walletName = "''bad_privacy'' @ ''_watcher''" and e = walletBusy and d = True]
      by (simp add: watcherBusyNode_def loadFailsFor_def walletBusy_def)
    have w: "createWatcherWallet ?E ''bad_privacy'' signers w2 = (Inl walletBusy, ?w')"
      using l loadOrCreateWallet_cases
        [where E = ?E and w = w2 and scenario = "''bad_privacy''" and e = walletBusy
          and signers = signers and w' = ?w']
      by simp
    have "createMultisigWallet ?E ''bad_privacy'' world0 = (Inl walletBusy, ?w')"
      using s a w loadOrCreateWallet_cases
        [where E = ?E and w = world0 and scenario = "''bad_privacy''" and signers = signers
          and w_signers = w1 and multisigAddress = multisigAddress
          and addresses = addresses and w_addresses = w2 and e = walletBusy and w' = ?w']
      by simp
    then show ?thesis
      by simp
  qed
  from loaded loads creates busy [of "''_signer_1''" False] unreachable signers watcher
    second multisig late
  show ?thesis by simp
qed

section \<open>Funding\<close>

text \<open>
  Claim C8, as the code has it. The short-circuit of \<open>fundWallet\<close> is a strict comparison:
  when the first balance read is greater than 5, \<open>fundWallet\<close> returns having sent that
  one \<open>getbalance\<close> request and nothing else, and the world is otherwise unchanged.
\<close>

theorem fundWallet_short_circuit:
  assumes "answer_number E (trace w) (Some wallet, Getbalance) = Inr b" and "5 < b"
  shows "fundWallet E wallet w
    = (Inr (), w\<lparr>trace := trace w @ [(Some wallet, Getbalance)]\<rparr>)"
  using assms by (simp add: fundWallet_def prog_defs rpc_defs)

theorem fundWallet_short_circuit_witness:
  "answer_number healthyNode (trace world0) (Some ''bad_privacy_signer_1'', Getbalance) = Inr 10
   \<and> (5::rat) < 10
   \<and> fundWallet healthyNode ''bad_privacy_signer_1'' world0
     = (Inr (), world0\<lparr>trace := [(Some ''bad_privacy_signer_1'', Getbalance)]\<rparr>)"
proof -
  have b: "answer_number healthyNode (trace world0) (Some ''bad_privacy_signer_1'', Getbalance)
      = Inr 10"
    by (simp add: healthyNode_def)
  have lt: "(5::rat) < 10" by simp
  show ?thesis
    using b lt fundWallet_short_circuit [OF b lt] by (simp add: world0_def)
qed

text \<open>
  A wallet holding exactly 5 is at the threshold, and \<open>fundWallet\<close> goes on: it asks for
  an address, has 50 blocks mined to it and reads the balance twice more.
\<close>

theorem fundWallet_at_threshold_counterexample:
  "answer_number thresholdNode (trace world0) (Some ''bad_privacy_signer_1'', Getbalance)
     = Inr 5
   \<and> (5::rat) \<le> 5
   \<and> fundWallet thresholdNode ''bad_privacy_signer_1'' world0
     = (Inr (),
        world0\<lparr>trace :=
          [(Some ''bad_privacy_signer_1'', Getbalance),
           (Some ''bad_privacy_signer_1'', Getnewaddress),
           (None, Generatetoaddress 50 ''aa''),
           (Some ''bad_privacy_signer_1'', Getbalance),
           (Some ''bad_privacy_signer_1'', Getbalance)]\<rparr>)"
  by (simp add: fundWallet_def bindE_def returnE_def rpc_defs world0_def thresholdNode_def
      allAccepted_def)

text \<open>
  \<open>fundWallet\<close> on a node that answers the wallet's own balance queries and address
  request and accepts the mining of 50 blocks.
\<close>

lemma fundWallet_returns:
  assumes "\<And>h. answer_number E h (Some wallet, Getbalance) = Inr (balanceAt h)"
    and "\<And>h. answer_string E h (Some wallet, Getnewaddress) = Inr (fresh h)"
    and "\<And>h a. answer_void E h (None, Generatetoaddress 50 a) = None"
  shows "fst (fundWallet E wallet w) = Inr ()"
  by (simp add: fundWallet_def bindE_def returnE_def rpc_defs assms)

text \<open>The miner-wallet transfer only adds requests to those sent before it, and it ends
  normally whatever the node answers; so the final balance query is sent after at least
  the four requests that precede the transfer.\<close>

lemma fundWallet_final_balance:
  assumes "answer_number E (trace w) (Some wallet, Getbalance) = Inr b" and "\<not> 5 < b"
    and "answer_string E (trace w @ [(Some wallet, Getbalance)]) (Some wallet, Getnewaddress)
      = Inr a"
    and "answer_void E (trace w @ [(Some wallet, Getbalance), (Some wallet, Getnewaddress)])
        (None, Generatetoaddress 50 a) = None"
    and "answer_number E
        (trace w @ [(Some wallet, Getbalance), (Some wallet, Getnewaddress),
           (None, Generatetoaddress 50 a)])
        (Some wallet, Getbalance) = Inr b'"
    and "\<And>h. length (trace w) + 4 \<le> length h \<Longrightarrow>
      answer_number E h (Some wallet, Getbalance) = Inl e"
  shows "fst (fundWallet E wallet w) = Inl e"
proof -
  let ?w4 = "w\<lparr>trace := trace w @ [(Some wallet, Getbalance), (Some wallet, Getnewaddress),
    (None, Generatetoaddress 50 a), (Some wallet, Getbalance)]\<rparr>"
  let ?transfer = "if b' < 1
    then
      catchE
        (bindE (ensureMinerWallet E) (\<lambda>_.
         bindE (rpc_number E (Some ''miner'') Getbalance) (\<lambda>minerBalance.
         if minerBalance > 10
         then
           bindE (rpc_void E (Some ''miner'') (Sendtoaddress a 5)) (\<lambda>_.
           rpc_void E None (Generatetoaddress 1 a))
         else returnE ())))
        (\<lambda>error. returnE ())
    else returnE ()"
  have "sendsOnly (\<lambda>r. True) ?transfer"
    unfolding ensureMinerWallet_def
    by (intro sendsOnly_bindE sendsOnly_catchE sendsOnly_if sendsOnly_rpc sendsOnly_returnE
        sendsOnly_throwE) simp_all
  then obtain ts where ts: "snd (?transfer ?w4) = ?w4\<lparr>trace := trace ?w4 @ ts\<rparr>"
    unfolding sendsOnly_def by blast
  have ok: "fst (?transfer ?w4) = Inr ()"
    by (simp add: returnE_apply)
  from ts ok have transfer: "?transfer ?w4 = (Inr (), ?w4\<lparr>trace := trace ?w4 @ ts\<rparr>)"
    by (cases "?transfer ?w4") simp
  have final: "answer_number E (trace ?w4 @ ts) (Some wallet, Getbalance) = Inl e"
    by (rule assms(6)) simp
  have "fundWallet E wallet w
      = bindE ?transfer (\<lambda>_.
          bindE (rpc_number E (Some wallet) Getbalance) (\<lambda>finalBalance. returnE ())) ?w4"
    using assms(1-5) by (simp add: fundWallet_def run_simps)
  also have "\<dots> = bindE (rpc_number E (Some wallet) Getbalance) (\<lambda>finalBalance. returnE ())
      (?w4\<lparr>trace := trace ?w4 @ ts\<rparr>)"
    by (subst bindE_apply) (simp only: transfer prod.case sum.case)
  finally show ?thesis
    using final by (simp add: run_simps)
qed

text \<open>
  Claim C3, as the code has it. \<open>fundWallet\<close> returns normally whenever the node answers the
  wallet's own balance queries and address request and accepts the mining of 50 blocks.
  Whatever fails inside the miner-wallet transfer (listing, creating or loading the miner
  wallet, its balance, the payment, the confirming block) is caught, and a final balance
  that is still too low is only logged. A failure of one of the wallet's own requests is
  thrown to the caller: of the first balance query, of the address request, of the
  mining of 50 blocks, of the balance query after the mining, and of the final balance
  query, which is sent after the four requests before the transfer and those of the
  transfer.
\<close>

theorem fundWallet_returns_normally:
  "((\<forall>h. answer_number E h (Some wallet, Getbalance) = Inr (balanceAt h))
      \<and> (\<forall>h. answer_string E h (Some wallet, Getnewaddress) = Inr (fresh h))
      \<and> (\<forall>h a. answer_void E h (None, Generatetoaddress 50 a) = None) \<longrightarrow>
      fst (fundWallet E wallet w) = Inr ())
   \<and> (answer_number E (trace w) (Some wallet, Getbalance) = Inl e \<longrightarrow>
      fundWallet E wallet w = (Inl e, w\<lparr>trace := trace w @ [(Some wallet, Getbalance)]\<rparr>))
   \<and> (answer_number E (trace w) (Some wallet, Getbalance) = Inr b \<and> \<not> 5 < b
       \<and> answer_string E (trace w @ [(Some wallet, Getbalance)]) (Some wallet, Getnewaddress)
           = Inl e \<longrightarrow>
      fundWallet E wallet w
        = (Inl e,
           w\<lparr>trace := trace w @ [(Some wallet, Getbalance), (Some wallet, Getnewaddress)]\<rparr>))
   \<and> (answer_number E (trace w) (Some wallet, Getbalance) = Inr b \<and> \<not> 5 < b
       \<and> answer_string E (trace w @ [(Some wallet, Getbalance)]) (Some wallet, Getnewaddress)
           = Inr a
       \<and> answer_void E (trace w @ [(Some wallet, Getbalance), (Some wallet, Getnewaddress)])
           (None, Generatetoaddress 50 a) = Some e \<longrightarrow>
      fundWallet E wallet w
        = (Inl e,
           w\<lparr>trace := trace w @ [(Some wallet, Getbalance), (Some wallet, Getnewaddress),
             (None, Generatetoaddress 50 a)]\<rparr>))
   \<and> (answer_number E (trace w) (Some wallet, Getbalance) = Inr b \<and> \<not> 5 < b
       \<and> answer_string E (trace w @ [(Some wallet, Getbalance)]) (Some wallet, Getnewaddress)
           = Inr a
       \<and> answer_void E (trace w @ [(Some wallet, Getbalance), (Some wallet, Getnewaddress)])
           (None, Generatetoaddress 50 a) = None
       \<and> answer_number E
           (trace w @ [(Some wallet, Getbalance), (Some wallet, Getnewaddress),
              (None, Generatetoaddress 50 a)])
           (Some wallet, Getbalance) = Inl e \<longrightarrow>
      fundWallet E wallet w
        = (Inl e,
           w\<lparr>trace := trace w @ [(Some wallet, Getbalance), (Some wallet, Getnewaddress),
             (None, Generatetoaddress 50 a), (Some wallet, Getbalance)]\<rparr>))
   \<and> (answer_number E (trace w) (Some wallet, Getbalance) = Inr b \<and> \<not> 5 < b
       \<and> answer_string E (trace w @ [(Some wallet, Getbalance)]) (Some wallet, Getnewaddress)
           = Inr a
       \<and> answer_void E (trace w @ [(Some wallet, Getbalance), (Some wallet, Getnewaddress)])
           (None, Generatetoaddress 50 a) = None
       \<and> answer_number E
           (trace w @ [(Some wallet, Getbalance), (Some wallet, Getnewaddress),
              (None, Generatetoaddress 50 a)])
           (Some wallet, Getbalance) = Inr b'
       \<and> (\<forall>h. length (trace w) + 4 \<le> length h \<longrightarrow>
             answer_number E h (Some wallet, Getbalance) = Inl e) \<longrightarrow>
      fst (fundWallet E wallet w) = Inl e)"
proof (intro conjI impI)
  assume "(\<forall>h. answer_number E h (Some wallet, Getbalance) = Inr (balanceAt h))
      \<and> (\<forall>h. answer_string E h (Some wallet, Getnewaddress) = Inr (fresh h))
      \<and> (\<forall>h a. answer_void E h (None, Generatetoaddress 50 a) = None)"
  then show "fst (fundWallet E wallet w) = Inr ()"
    by (intro fundWallet_returns [of E wallet balanceAt fresh]) simp_all
next
  assume "answer_number E (trace w) (Some wallet, Getbalance) = Inl e"
  then show "fundWallet E wallet w
      = (Inl e, w\<lparr>trace := trace w @ [(Some wallet, Getbalance)]\<rparr>)"
    by (simp add: fundWallet_def run_simps)
next
  assume "answer_number E (trace w) (Some wallet, Getbalance) = Inr b \<and> \<not> 5 < b
       \<and> answer_string E (trace w @ [(Some wallet, Getbalance)]) (Some wallet, Getnewaddress)
           = Inl e"
  then show "fundWallet E wallet w
        = (Inl e,
           w\<lparr>trace := trace w @ [(Some wallet, Getbalance), (Some wallet, Getnewaddress)]\<rparr>)"
    by (simp add: fundWallet_def run_simps)
next
  assume "answer_number E (trace w) (Some wallet, Getbalance) = Inr b \<and> \<not> 5 < b
       \<and> answer_string E (trace w @ [(Some wallet, Getbalance)]) (Some wallet, Getnewaddress)
           = Inr a
       \<and> answer_void E (trace w @ [(Some wallet, Getbalance), (Some wallet, Getnewaddress)])
           (None, Generatetoaddress 50 a) = Some e"
  then show "fundWallet E wallet w
        = (Inl e,
           w\<lparr>trace := trace w @ [(Some wallet, Getbalance), (Some wallet, Getnewaddress),
             (None, Generatetoaddress 50 a)]\<rparr>)"
    by (simp add: fundWallet_def run_simps)
next
  assume "answer_number E (trace w) (Some wallet, Getbalance) = Inr b \<and> \<not> 5 < b
       \<and> answer_string E (trace w @ [(Some wallet, Getbalance)]) (Some wallet, Getnewaddress)
           = Inr a
       \<and> answer_void E (trace w @ [(Some wallet, Getbalance), (Some wallet, Getnewaddress)])
           (None, Generatetoaddress 50 a) = None
       \<and> answer_number E
           (trace w @ [(Some wallet, Getbalance), (Some wallet, Getnewaddress),
              (None, Generatetoaddress 50 a)])
           (Some wallet, Getbalance) = Inl e"
  then show "fundWallet E wallet w
        = (Inl e,
           w\<lparr>trace := trace w @ [(Some wallet, Getbalance), (Some wallet, Getnewaddress),
             (None, Generatetoaddress 50 a), (Some wallet, Getbalance)]\<rparr>)"
    by (simp add: fundWallet_def run_simps)
next
  assume "answer_number E (trace w) (Some wallet, Getbalance) = Inr b \<and> \<not> 5 < b
       \<and> answer_string E (trace w @ [(Some wallet, Getbalance)]) (Some wallet, Getnewaddress)
           = Inr a
       \<and> answer_void E (trace w @ [(Some wallet, Getbalance), (Some wallet, Getnewaddress)])
           (None, Generatetoaddress 50 a) = None
       \<and> answer_number E
           (trace w @ [(Some wallet, Getbalance), (Some wallet, Getnewaddress),
              (None, Generatetoaddress 50 a)])
           (Some wallet, Getbalance) = Inr b'
       \<and> (\<forall>h. length (trace w) + 4 \<le> length h \<longrightarrow>
             answer_number E h (Some wallet, Getbalance) = Inl e)"
  then show "fst (fundWallet E wallet w) = Inl e"
    by (intro fundWallet_final_balance [of E w wallet b a b' e]) simp_all
qed

theorem fundWallet_returns_normally_witness:
  "fst (fundWallet starvedNode ''bad_privacy_signer_1'' world0) = Inr ()
   \<and> fundWallet unreachableNode ''bad_privacy_signer_1'' world0
     = (Inl connectionRefused,
        world0\<lparr>trace := [(Some ''bad_privacy_signer_1'', Getbalance)]\<rparr>)
   \<and> fundWallet addresslessNode ''bad_privacy_signer_1'' world0
     = (Inl connectionRefused,
        world0\<lparr>trace :=
          [(Some ''bad_privacy_signer_1'', Getbalance),
           (Some ''bad_privacy_signer_1'', Getnewaddress)]\<rparr>)
   \<and> fundWallet noMiningNode ''bad_privacy_signer_1'' world0
     = (Inl connectionRefused,
        world0\<lparr>trace :=
          [(Some ''bad_privacy_signer_1'', Getbalance),
           (Some ''bad_privacy_signer_1'', Getnewaddress),
           (None, Generatetoaddress 50 ''aa'')]\<rparr>)
   \<and> fundWallet (fadingNode 3) ''bad_privacy_signer_1'' world0
     = (Inl connectionRefused,
        world0\<lparr>trace :=
          [(Some ''bad_privacy_signer_1'', Getbalance),
           (Some ''bad_privacy_signer_1'', Getnewaddress),
           (None, Generatetoaddress 50 ''aa''),
           (Some ''bad_privacy_signer_1'', Getbalance)]\<rparr>)
   \<and> fst (fundWallet (fadingNode 4) ''bad_privacy_signer_1'' world0) = Inl connectionRefused"
proof -
  let ?c = "''bad_privacy_signer_1''"
  note inst = fundWallet_returns_normally [where wallet = ?c and w = world0]
  have returns: "fst (fundWallet starvedNode ?c world0) = Inr ()"
    using inst [where E = starvedNode and balanceAt = "\<lambda>h. 0"
        and fresh = "\<lambda>h. replicate (Suc (length h)) CHR ''a''"]
    by (simp add: starvedNode_def paymentsRefused_def isPayment_def)
  have first: "fundWallet unreachableNode ?c world0
     = (Inl connectionRefused, world0\<lparr>trace := [(Some ?c, Getbalance)]\<rparr>)"
    using inst [where E = unreachableNode and e = connectionRefused]
    by (simp add: unreachableNode_def world0_def)
  have address: "fundWallet addresslessNode ?c world0
     = (Inl connectionRefused,
        world0\<lparr>trace := [(Some ?c, Getbalance), (Some ?c, Getnewaddress)]\<rparr>)"
    using inst [where E = addresslessNode and b = 5 and e = connectionRefused]
    by (simp add: addresslessNode_def thresholdNode_def world0_def)
  have mining: "fundWallet noMiningNode ?c world0
     = (Inl connectionRefused,
        world0\<lparr>trace :=
          [(Some ?c, Getbalance), (Some ?c, Getnewaddress),
           (None, Generatetoaddress 50 ''aa'')]\<rparr>)"
    using inst [where E = noMiningNode and b = 5 and a = "''aa''" and e = connectionRefused]
    by (simp add: noMiningNode_def miningRefused_def world0_def)
  have after: "fundWallet (fadingNode 3) ?c world0
     = (Inl connectionRefused,
        world0\<lparr>trace :=
          [(Some ?c, Getbalance), (Some ?c, Getnewaddress),
           (None, Generatetoaddress 50 ''aa''), (Some ?c, Getbalance)]\<rparr>)"
    using inst [where E = "fadingNode 3" and b = 0 and a = "''aa''"
        and e = connectionRefused]
    by (simp add: fadingNode_def starvedNode_def paymentsRefused_def isPayment_def world0_def)
  have final: "fst (fundWallet (fadingNode 4) ?c world0) = Inl connectionRefused"
    using inst [where E = "fadingNode 4" and b = 0 and a = "''aa''" and b' = 0
        and e = connectionRefused]
    by (simp add: fadingNode_def starvedNode_def paymentsRefused_def isPayment_def world0_def)
  from returns first address mining after final show ?thesis
    by (intro conjI)
qed

text \<open>On a node that cannot be reached the very first balance query fails, and
  \<open>fundWallet\<close> throws that error.\<close>

theorem fundWallet_raises_counterexample:
  "fundWallet unreachableNode ''bad_privacy_signer_1'' world0
     = (Inl connectionRefused,
        world0\<lparr>trace := [(Some ''bad_privacy_signer_1'', Getbalance)]\<rparr>)"
  by (simp add: fundWallet_def bindE_def rpc_defs unreachableNode_def world0_def)

section \<open>Funding the multisig addresses\<close>

lemma amountPerAddress_lower: "toDouble (5 / 100) \<le> amountPerAddress b n"
  by (simp add: amountPerAddress_def)

lemma amountPerAddress_guard: "toDouble (2 / 100) < amountPerAddress b n"
proof -
  have "toDouble (2 / 100) < toDouble (5 / 100)"
    unfolding literals by simp
  with amountPerAddress_lower [of b n] show ?thesis
    by simp
qed

lemma roundedAmount_lower:
  assumes "toDouble (5 / 100) \<le> x"
  shows "toDouble (5 / 100) \<le> roundedAmount x"
proof -
  have "(5::rat) / 100 \<le> toDouble (5 / 100)"
    unfolding literals by simp
  with assms have "5 \<le> x * 100" by simp
  then have "toDouble 5 \<le> toDouble (x * 100)" by (rule toDouble_mono)
  moreover have "toDouble 5 = 5" by (simp add: double_eval)
  ultimately have "of_int 5 \<le> dmul x 100" by (simp add: dmul_def)
  then have "5 \<le> \<lfloor>dmul x 100\<rfloor>" by (simp only: le_floor_iff)
  then have "(5::rat) \<le> of_int \<lfloor>dmul x 100\<rfloor>" by linarith
  then have "(5::rat) / 100 \<le> of_int \<lfloor>dmul x 100\<rfloor> / 100" by simp
  then show ?thesis unfolding roundedAmount_def ddiv_def by (rule toDouble_mono)
qed

lemma reduced_amount_total:
  assumes "b < toDouble (2 / 10)"
  shows "b < 4 * roundedAmount (amountPerAddress b 4)"
proof -
  from assms have "b - toDouble (2 / 10) \<le> 0" by simp
  then have "toDouble (b - toDouble (2 / 10)) \<le> toDouble 0" by (rule toDouble_mono)
  then have "dsub b (toDouble (2 / 10)) / 4 \<le> 0" by (simp add: dsub_def toDouble_def)
  then have "toDouble (dsub b (toDouble (2 / 10)) / 4) \<le> toDouble 0" by (rule toDouble_mono)
  then have "ddiv (dsub b (toDouble (2 / 10))) 4 \<le> 0" by (simp add: ddiv_def toDouble_def)
  moreover have "(0::rat) \<le> toDouble (5 / 100)" unfolding literals by simp
  ultimately have amount: "amountPerAddress b 4 = toDouble (5 / 100)"
    by (simp add: amountPerAddress_def max_def)
  have "roundedAmount (toDouble (5 / 100)) = toDouble (5 / 100)"
    by (simp add: number_defs double_eval)
  with assms show ?thesis
    unfolding amount literals by simp
qed

text \<open>The loop of the reduced-funding branch, for any list of addresses: it pays the
  addresses in order, goes on as long as the node accepts, and stops after the first
  payment the node refuses.\<close>

lemma reduced_loop:
  assumes "toDouble (2 / 100) < amt"
  shows "\<exists>k\<le>length addrs.
      forOfBreak addrs (\<lambda>address.
          if toDouble (2 / 100) < amt
          then catchE
                 (bindE (rpc_void E (Some c) (Sendtoaddress address r)) (\<lambda>_. returnE True))
                 (\<lambda>error. returnE False)
          else returnE True) w
        = (Inr (), w\<lparr>trace := trace w @ map (\<lambda>a. (Some c, Sendtoaddress a r)) (take k addrs)\<rparr>)
      \<and> (addrs \<noteq> [] \<longrightarrow> 0 < k)
      \<and> (\<forall>i. Suc i < k \<longrightarrow>
            answer_void E (trace w @ map (\<lambda>a. (Some c, Sendtoaddress a r)) (take i addrs))
              (Some c, Sendtoaddress (addrs ! i) r) = None)
      \<and> (k < length addrs \<longrightarrow>
            answer_void E (trace w @ map (\<lambda>a. (Some c, Sendtoaddress a r)) (take (k - 1) addrs))
              (Some c, Sendtoaddress (addrs ! (k - 1)) r) \<noteq> None)"
proof (induction addrs arbitrary: w)
  case Nil
  show ?case by (simp add: returnE_def)
next
  case (Cons a as)
  let ?send = "\<lambda>a. (Some c, Sendtoaddress a r)"
  let ?body = "\<lambda>address.
          if toDouble (2 / 100) < amt
          then catchE
                 (bindE (rpc_void E (Some c) (Sendtoaddress address r)) (\<lambda>_. returnE True))
                 (\<lambda>error. returnE False)
          else returnE True"
  let ?w1 = "w\<lparr>trace := trace w @ [?send a]\<rparr>"
  show ?case
  proof (cases "answer_void E (trace w) (?send a)")
    case None
    then have step: "forOfBreak (a # as) ?body w = forOfBreak as ?body ?w1"
      using assms by (simp add: prog_defs rpc_defs)
    from Cons.IH [of ?w1] obtain k where k: "k \<le> length as"
      "forOfBreak as ?body ?w1 = (Inr (), ?w1\<lparr>trace := trace ?w1 @ map ?send (take k as)\<rparr>)"
      "as \<noteq> [] \<longrightarrow> 0 < k"
      "\<forall>i. Suc i < k \<longrightarrow>
         answer_void E (trace ?w1 @ map ?send (take i as)) (?send (as ! i)) = None"
      "k < length as \<longrightarrow>
         answer_void E (trace ?w1 @ map ?send (take (k - 1) as)) (?send (as ! (k - 1))) \<noteq> None"
      by blast
    have "Suc k \<le> length (a # as)" using k(1) by simp
    moreover have "forOfBreak (a # as) ?body w
        = (Inr (), w\<lparr>trace := trace w @ map ?send (take (Suc k) (a # as))\<rparr>)"
      using step k(2) by simp
    moreover have "\<forall>i. Suc i < Suc k \<longrightarrow>
        answer_void E (trace w @ map ?send (take i (a # as))) (?send ((a # as) ! i)) = None"
    proof (intro allI impI)
      fix i
      assume i: "Suc i < Suc k"
      show "answer_void E (trace w @ map ?send (take i (a # as))) (?send ((a # as) ! i)) = None"
      proof (cases i)
        case 0
        with None show ?thesis by simp
      next
        case (Suc j)
        with i have "Suc j < k" by simp
        with k(4) have "answer_void E (trace ?w1 @ map ?send (take j as)) (?send (as ! j)) = None"
          by blast
        with Suc show ?thesis by simp
      qed
    qed
    moreover have "Suc k < length (a # as) \<longrightarrow>
        answer_void E (trace w @ map ?send (take (Suc k - 1) (a # as)))
          (?send ((a # as) ! (Suc k - 1))) \<noteq> None"
    proof
      assume "Suc k < length (a # as)"
      then have lt: "k < length as" by simp
      then have "as \<noteq> []" by auto
      with k(3) have pos: "0 < k" by simp
      then obtain j where j: "k = Suc j" by (cases k) auto
      from k(5) lt j show "answer_void E (trace w @ map ?send (take (Suc k - 1) (a # as)))
          (?send ((a # as) ! (Suc k - 1))) \<noteq> None"
        by simp
    qed
    ultimately show ?thesis
      by (intro exI [of _ "Suc k"]) simp
  next
    case (Some e)
    then have "forOfBreak (a # as) ?body w = (Inr (), ?w1)"
      using assms by (simp add: prog_defs rpc_defs)
    with Some show ?thesis
      by (intro exI [of _ "Suc 0"]) auto
  qed
qed

lemma confirm_no_payment:
  "\<exists>ts. snd (bindE (rpc_string E ctx Getnewaddress)
              (\<lambda>a. rpc_void E None (Generatetoaddress n a)) w)
        = w\<lparr>trace := trace w @ ts\<rparr> \<and> filter isPayment ts = []"
proof (cases "answer_string E (trace w) (ctx, Getnewaddress)")
  case (Inl e)
  then show ?thesis
    by (intro exI [of _ "[(ctx, Getnewaddress)]"]) (simp add: prog_defs rpc_defs isPayment_def)
next
  case (Inr a)
  then show ?thesis
    by (intro exI [of _ "[(ctx, Getnewaddress), (None, Generatetoaddress n a)]"])
       (simp add: prog_defs rpc_defs isPayment_def)
qed

text \<open>
  Claim C10, as the code has it. \<open>b\<close> is the balance read, a double with
  \<open>0.1 \<le> b < 8\<close> (the source compares with the literal \<open>0.1\<close>), and there is at least one
  address. The amount per address is at least the double 0.05, so the guard
  \<open>amountPerAddress > 0.02\<close> never skips an address, and the amount sent,
  \<open>Math.floor(amountPerAddress * 100) / 100\<close>, is at least 0.05 as well. Payments of that
  amount go to the first \<open>k\<close> addresses, in order, where \<open>k\<close> is fixed by the node: every
  payment before the \<open>k\<close>-th was accepted, and if \<open>k\<close> is not the number of addresses then
  the \<open>k\<close>-th was refused. So the loop stops after the first refused payment and not
  before, and all addresses are paid only if none of the payments before the last is
  refused. No account is taken of the balance: for four addresses and a balance below
  0.2 the four payments would exceed it.
\<close>

theorem fundMultisigAddresses_reduced:
  assumes "answer_number E (trace w) (Some c, Getbalance) = Inr b"
    and "toDouble (1 / 10) \<le> b" and "b < 8" and "addresses \<noteq> []"
  shows "toDouble (2 / 100) < amountPerAddress b (length addresses)
    \<and> toDouble (5 / 100) \<le> roundedAmount (amountPerAddress b (length addresses))
    \<and> (\<exists>k. 0 < k \<and> k \<le> length addresses
          \<and> filter isPayment (issued w (snd (fundMultisigAddresses E addresses c w)))
            = map (\<lambda>a. (Some c,
                         Sendtoaddress a (roundedAmount (amountPerAddress b (length addresses)))))
                (take k addresses)
          \<and> (\<forall>i. Suc i < k \<longrightarrow>
                answer_void E
                  (trace w @ (Some c, Getbalance) #
                     map (\<lambda>a. (Some c,
                                Sendtoaddress a
                                  (roundedAmount (amountPerAddress b (length addresses)))))
                       (take i addresses))
                  (Some c,
                   Sendtoaddress (addresses ! i)
                     (roundedAmount (amountPerAddress b (length addresses)))) = None)
          \<and> (k < length addresses \<longrightarrow>
                answer_void E
                  (trace w @ (Some c, Getbalance) #
                     map (\<lambda>a. (Some c,
                                Sendtoaddress a
                                  (roundedAmount (amountPerAddress b (length addresses)))))
                       (take (k - 1) addresses))
                  (Some c,
                   Sendtoaddress (addresses ! (k - 1))
                     (roundedAmount (amountPerAddress b (length addresses)))) \<noteq> None)
          \<and> ((\<forall>h a. answer_void E h
                  (Some c,
                   Sendtoaddress a (roundedAmount (amountPerAddress b (length addresses))))
                  = None) \<longrightarrow> k = length addresses))
    \<and> (length addresses = 4 \<and> b < toDouble (2 / 10) \<longrightarrow>
          b < 4 * roundedAmount (amountPerAddress b (length addresses)))"
proof -
  let ?amt = "amountPerAddress b (length addresses)"
  let ?r = "roundedAmount ?amt"
  let ?send = "\<lambda>a. (Some c, Sendtoaddress a ?r)"
  let ?w0 = "w\<lparr>trace := trace w @ [(Some c, Getbalance)]\<rparr>"
  let ?loop = "forOfBreak addresses (\<lambda>address.
          if toDouble (2 / 100) < ?amt
          then catchE
                 (bindE (rpc_void E (Some c) (Sendtoaddress address ?r)) (\<lambda>_. returnE True))
                 (\<lambda>error. returnE False)
          else returnE True)"
  let ?confirm = "bindE (rpc_string E (Some c) Getnewaddress)
              (\<lambda>a. rpc_void E None (Generatetoaddress 6 a))"
  have guard: "toDouble (2 / 100) < ?amt"
    by (rule amountPerAddress_guard)
  have rounded: "toDouble (5 / 100) \<le> ?r"
    by (rule roundedAmount_lower) (rule amountPerAddress_lower)
  from reduced_loop [OF guard, of addresses E c ?r ?w0]
  obtain k where k: "k \<le> length addresses"
    "?loop ?w0 = (Inr (), ?w0\<lparr>trace := trace ?w0 @ map ?send (take k addresses)\<rparr>)"
    "addresses \<noteq> [] \<longrightarrow> 0 < k"
    "\<forall>i. Suc i < k \<longrightarrow>
       answer_void E (trace ?w0 @ map ?send (take i addresses)) (?send (addresses ! i)) = None"
    "k < length addresses \<longrightarrow>
       answer_void E (trace ?w0 @ map ?send (take (k - 1) addresses))
         (?send (addresses ! (k - 1))) \<noteq> None"
    by blast
  let ?w1 = "?w0\<lparr>trace := trace ?w0 @ map ?send (take k addresses)\<rparr>"
  from confirm_no_payment [of E "Some c" 6 ?w1]
  obtain ts where ts: "snd (?confirm ?w1) = ?w1\<lparr>trace := trace ?w1 @ ts\<rparr>"
    "filter isPayment ts = []"
    by blast
  have branch: "\<not> b < toDouble (1 / 10)"
    using assms(2) by simp
  have run: "snd (fundMultisigAddresses E addresses c w) = snd (?confirm ?w1)"
    using assms(1,3) branch k(2) by (simp add: fundMultisigAddresses_def bindE_def rpc_defs)
  have pay: "filter isPayment (map ?send (take k addresses)) = map ?send (take k addresses)"
    by (simp add: isPayment_def)
  have paid: "filter isPayment (issued w (snd (fundMultisigAddresses E addresses c w)))
      = map ?send (take k addresses)"
    using ts pay by (simp add: run issued_def isPayment_def)
  have all: "(\<forall>h a. answer_void E h (?send a) = None) \<longrightarrow> k = length addresses"
    using k(1,5) by (cases "k < length addresses") auto
  have total: "length addresses = 4 \<and> b < toDouble (2 / 10) \<longrightarrow> b < 4 * ?r"
    using reduced_amount_total [of b] by auto
  have pos: "0 < k"
    using k(3) assms(4) by simp
  have "\<exists>k. 0 < k \<and> k \<le> length addresses
      \<and> filter isPayment (issued w (snd (fundMultisigAddresses E addresses c w)))
        = map ?send (take k addresses)
      \<and> (\<forall>i. Suc i < k \<longrightarrow>
            answer_void E (trace w @ (Some c, Getbalance) # map ?send (take i addresses))
              (?send (addresses ! i)) = None)
      \<and> (k < length addresses \<longrightarrow>
            answer_void E (trace w @ (Some c, Getbalance) # map ?send (take (k - 1) addresses))
              (?send (addresses ! (k - 1))) \<noteq> None)
      \<and> ((\<forall>h a. answer_void E h (?send a) = None) \<longrightarrow> k = length addresses)"
    using pos k(1,4,5) paid all by (intro exI [of _ k]) simp
  with guard rounded total show ?thesis
    by blast
qed

theorem fundMultisigAddresses_reduced_witness:
  "answer_number nearlyEmptyNode (trace world0) (Some ''bad_privacy_signer_1'', Getbalance)
      = Inr (toDouble (1 / 10))
   \<and> toDouble (1 / 10) \<le> toDouble (1 / 10) \<and> toDouble (1 / 10) < 8
   \<and> [''m1'', ''m2'', ''m3'', ''m4''] \<noteq> []
   \<and> toDouble (2 / 100) < amountPerAddress (toDouble (1 / 10)) 4
   \<and> toDouble (5 / 100) \<le> roundedAmount (amountPerAddress (toDouble (1 / 10)) 4)
   \<and> filter isPayment
         (issued world0
           (snd (fundMultisigAddresses nearlyEmptyNode [''m1'', ''m2'', ''m3'', ''m4'']
                   ''bad_privacy_signer_1'' world0)))
       = [(Some ''bad_privacy_signer_1'', Sendtoaddress ''m1'' (toDouble (5 / 100))),
          (Some ''bad_privacy_signer_1'', Sendtoaddress ''m2'' (toDouble (5 / 100)))]
   \<and> toDouble (1 / 10) < 4 * roundedAmount (amountPerAddress (toDouble (1 / 10)) 4)
   \<and> filter isPayment
         (issued world0
           (snd (fundMultisigAddresses modestNode [''m1'', ''m2'', ''m3'', ''m4'']
                   ''bad_privacy_signer_1'' world0)))
       = map (\<lambda>a. (Some ''bad_privacy_signer_1'', Sendtoaddress a (toDouble (7 / 100))))
           [''m1'', ''m2'', ''m3'', ''m4'']"
proof -
  let ?c = "''bad_privacy_signer_1''"
  let ?addrs = "[''m1'', ''m2'', ''m3'', ''m4'']"
  have b: "answer_number nearlyEmptyNode (trace world0) (Some ?c, Getbalance)
      = Inr (toDouble (1 / 10))"
    by (simp add: nearlyEmptyNode_def)
  have lo: "toDouble (1 / 10) \<le> toDouble (1 / 10)" and hi: "toDouble (1 / 10) < 8"
    unfolding literals by simp_all
  have ne: "?addrs \<noteq> []"
    by simp
  have len: "length ?addrs = 4"
    by simp
  have amount: "roundedAmount (amountPerAddress (toDouble (1 / 10)) 4) = toDouble (5 / 100)"
    by (simp add: number_defs double_eval)
  have answer: "answer_void nearlyEmptyNode h (Some ?c, Sendtoaddress a x)
      = (if filter isPayment h \<noteq> [] then Some insufficientFunds else None)" for h a x
    by (simp add: nearlyEmptyNode_def onePaymentAccepted_def isPayment_def)
  note inst = fundMultisigAddresses_reduced [OF b lo hi ne, unfolded len amount]
  from inst obtain k where k: "0 < k" "k \<le> 4"
    "filter isPayment (issued world0 (snd (fundMultisigAddresses nearlyEmptyNode ?addrs ?c world0)))
       = map (\<lambda>a. (Some ?c, Sendtoaddress a (toDouble (5 / 100)))) (take k ?addrs)"
    "\<forall>i. Suc i < k \<longrightarrow>
       answer_void nearlyEmptyNode
         (trace world0 @ (Some ?c, Getbalance) #
            map (\<lambda>a. (Some ?c, Sendtoaddress a (toDouble (5 / 100)))) (take i ?addrs))
         (Some ?c, Sendtoaddress (?addrs ! i) (toDouble (5 / 100))) = None"
    "k < 4 \<longrightarrow>
       answer_void nearlyEmptyNode
         (trace world0 @ (Some ?c, Getbalance) #
            map (\<lambda>a. (Some ?c, Sendtoaddress a (toDouble (5 / 100)))) (take (k - 1) ?addrs))
         (Some ?c, Sendtoaddress (?addrs ! (k - 1)) (toDouble (5 / 100))) \<noteq> None"
    by blast
  have "\<not> Suc 1 < k"
  proof
    assume "Suc 1 < k"
    with k(4) have "answer_void nearlyEmptyNode
         (trace world0 @ (Some ?c, Getbalance) #
            map (\<lambda>a. (Some ?c, Sendtoaddress a (toDouble (5 / 100)))) (take 1 ?addrs))
         (Some ?c, Sendtoaddress (?addrs ! 1) (toDouble (5 / 100))) = None"
      by blast
    then show False
      unfolding answer by (simp add: isPayment_def)
  qed
  moreover have "k \<noteq> 1"
  proof
    assume "k = 1"
    with k(5) show False
      unfolding answer by (simp add: isPayment_def world0_def)
  qed
  ultimately have "k = 2"
    using k(1) by arith
  with k(3) have first: "filter isPayment
      (issued world0 (snd (fundMultisigAddresses nearlyEmptyNode ?addrs ?c world0)))
    = [(Some ?c, Sendtoaddress ''m1'' (toDouble (5 / 100))),
       (Some ?c, Sendtoaddress ''m2'' (toDouble (5 / 100)))]"
    by (simp add: numeral_2_eq_2)
  have below: "toDouble (1 / 10) < toDouble (2 / 10)"
    unfolding literals by simp
  have total: "toDouble (1 / 10) < 4 * toDouble (5 / 100)"
    using inst below by blast
  have b': "answer_number modestNode (trace world0) (Some ?c, Getbalance) = Inr (1 / 2)"
    by (simp add: modestNode_def)
  have lo': "toDouble (1 / 10) \<le> 1 / 2" and hi': "(1::rat) / 2 < 8"
    unfolding literals by simp_all
  have amount': "roundedAmount (amountPerAddress (1 / 2) 4) = toDouble (7 / 100)"
    by (simp add: number_defs double_eval)
  have accepted: "\<forall>h a. answer_void modestNode h
      (Some ?c, Sendtoaddress a (toDouble (7 / 100))) = None"
    by (simp add: modestNode_def allAccepted_def)
  from fundMultisigAddresses_reduced [OF b' lo' hi' ne, unfolded len amount'] accepted
  obtain n where "n = 4"
    "filter isPayment (issued world0 (snd (fundMultisigAddresses modestNode ?addrs ?c world0)))
       = map (\<lambda>a. (Some ?c, Sendtoaddress a (toDouble (7 / 100)))) (take n ?addrs)"
    by blast
  then have second: "filter isPayment
      (issued world0 (snd (fundMultisigAddresses modestNode ?addrs ?c world0)))
    = map (\<lambda>a. (Some ?c, Sendtoaddress a (toDouble (7 / 100)))) ?addrs"
    by simp
  from inst have "toDouble (2 / 100) < amountPerAddress (toDouble (1 / 10)) 4"
    and "toDouble (5 / 100) \<le> toDouble (5 / 100)"
    by blast+
  with b lo hi ne first total second show ?thesis
    unfolding amount by blast
qed

text \<open>
  On a node whose coordinator holds 0.1 and that accepts the first payment only, the
  second payment is refused and the loop stops: the third and the fourth address are
  never tried.
\<close>

theorem fundMultisigAddresses_counterexample:
  "fundMultisigAddresses nearlyEmptyNode [''m1'', ''m2'', ''m3'', ''m4'']
      ''bad_privacy_signer_1'' world0
    = (Inr (),
       world0\<lparr>trace :=
         [(Some ''bad_privacy_signer_1'', Getbalance),
          (Some ''bad_privacy_signer_1'', Sendtoaddress ''m1'' (toDouble (5 / 100))),
          (Some ''bad_privacy_signer_1'', Sendtoaddress ''m2'' (toDouble (5 / 100))),
          (Some ''bad_privacy_signer_1'', Getnewaddress),
          (None, Generatetoaddress 6 ''aaaa'')]\<rparr>)"
proof -
  have amount: "roundedAmount (amountPerAddress (toDouble (1 / 10)) 4) = toDouble (5 / 100)"
    by (simp add: number_defs double_eval)
  have guard: "toDouble (1 / 50) < amountPerAddress (toDouble (1 / 10)) 4"
    using amountPerAddress_guard [of "toDouble (1 / 10)" 4] by simp
  have branch: "\<not> toDouble (1 / 10) < toDouble (1 / 10)" "toDouble (1 / 10) < 8"
    unfolding literals by simp_all
  have len: "length [''m1'', ''m2'', ''m3'', ''m4''] = 4"
    by simp
  show ?thesis
    unfolding fundMultisigAddresses_def len
    by (simp add: run_simps nearlyEmptyNode_def world0_def onePaymentAccepted_def isPayment_def
        amount guard branch)
qed

section \<open>The good-privacy pattern on an empty wallet\<close>

text \<open>
  Claim C9, as the code has it. With a coordinator balance below 1 (0 in particular),
  on a node that answers the coordinator's address requests, the run of the good-privacy
  generator is fixed by what the node says to the payments. In each round the generator
  requests an address and tries one payment to the address just returned, of
  \<open>Number((Math.random() * 0.05 + 0.01).toFixed(8))\<close>; the round in which a payment is
  refused is the last, and there are at most 3 rounds. So there are 1, 2 or 3 payment
  attempts: one if the first is refused, two if the first is accepted and the second
  refused, three otherwise. A refused payment is not thrown: the generator goes on to
  request one more address and have 2 blocks mined to it, and returns normally if that
  request is accepted.
\<close>

theorem createGoodPrivacyPattern_low_balance:
  assumes "answer_number E (trace w) (Some (s_wallet s), Getbalance) = Inr b" and "b < 1"
    and "\<And>h. answer_string E h (Some (s_wallet s), Getnewaddress) = Inr (fresh h)"
  shows
    "let c = Some (s_wallet s);
         amount = (\<lambda>n. toFixed8
                     (dadd (dmul (random E (draws w + n)) (toDouble (5 / 100)))
                        (toDouble (1 / 100))));
         h0 = trace w @ [(c, Getbalance)];
         p1 = (c, Sendtoaddress (fresh h0) (amount 0));
         h1 = h0 @ [(c, Getnewaddress), p1];
         p2 = (c, Sendtoaddress (fresh h1) (amount 1));
         h2 = h1 @ [(c, Getnewaddress), p2];
         p3 = (c, Sendtoaddress (fresh h2) (amount 2));
         h3 = h2 @ [(c, Getnewaddress), p3];
         k = (if answer_void E (h0 @ [(c, Getnewaddress)]) p1 \<noteq> None then 1
              else if answer_void E (h1 @ [(c, Getnewaddress)]) p2 \<noteq> None then 2
              else 3);
         hk = (if k = 1 then h1 else if k = 2 then h2 else h3);
         mine = (None, Generatetoaddress 2 (fresh hk))
     in createGoodPrivacyPattern E (s # rest) w
          = ((case answer_void E (hk @ [(c, Getnewaddress)]) mine of
                None \<Rightarrow> Inr () | Some e \<Rightarrow> Inl e),
             w\<lparr>draws := draws w + k, trace := hk @ [(c, Getnewaddress), mine]\<rparr>)
        \<and> length (filter isPayment (issued w (snd (createGoodPrivacyPattern E (s # rest) w))))
            = k"
proof -
  let ?c = "Some (s_wallet s)"
  let ?amount = "\<lambda>n. toFixed8
      (dadd (dmul (random E (draws w + n)) (toDouble (5 / 100))) (toDouble (1 / 100)))"
  let ?h0 = "trace w @ [(?c, Getbalance)]"
  let ?p1 = "(?c, Sendtoaddress (fresh ?h0) (?amount 0))"
  let ?h1 = "?h0 @ [(?c, Getnewaddress), ?p1]"
  let ?p2 = "(?c, Sendtoaddress (fresh ?h1) (?amount 1))"
  let ?h2 = "?h1 @ [(?c, Getnewaddress), ?p2]"
  let ?p3 = "(?c, Sendtoaddress (fresh ?h2) (?amount 2))"
  note defs = createGoodPrivacyPattern_def coordinatorOf_def ranges
  consider
      (first) "answer_void E (?h0 @ [(?c, Getnewaddress)]) ?p1 \<noteq> None"
    | (second) "answer_void E (?h0 @ [(?c, Getnewaddress)]) ?p1 = None"
        "answer_void E (?h1 @ [(?c, Getnewaddress)]) ?p2 \<noteq> None"
    | (third) "answer_void E (?h0 @ [(?c, Getnewaddress)]) ?p1 = None"
        "answer_void E (?h1 @ [(?c, Getnewaddress)]) ?p2 = None"
    by blast
  then show ?thesis
  proof cases
    case first
    then show ?thesis
      using assms(1,2) unfolding defs Let_def
      by (auto simp add: run_simps assms(3) issued_def isPayment_def split: option.splits)
  next
    case second
    then show ?thesis
      using assms(1,2) unfolding defs Let_def
      by (auto simp add: run_simps assms(3) issued_def isPayment_def split: option.splits)
  next
    case third
    then show ?thesis
      using assms(1,2) unfolding defs Let_def
      by (auto simp add: run_simps assms(3) issued_def isPayment_def split: option.splits)
  qed
qed

theorem createGoodPrivacyPattern_low_balance_witness:
  "createGoodPrivacyPattern emptyNode sampleSigners world0
     = (Inr (),
        \<lparr> trace =
            [(Some ''bad_privacy_signer_1'', Getbalance),
             (Some ''bad_privacy_signer_1'', Getnewaddress),
             (Some ''bad_privacy_signer_1'', Sendtoaddress ''aa'' (toDouble (35 / 1000))),
             (Some ''bad_privacy_signer_1'', Getnewaddress),
             (None, Generatetoaddress 2 ''aaaa'')],
          draws = 1, files = [] \<rparr>)
   \<and> createGoodPrivacyPattern nearlyEmptyNode sampleSigners world0
     = (Inr (),
        \<lparr> trace =
            [(Some ''bad_privacy_signer_1'', Getbalance),
             (Some ''bad_privacy_signer_1'', Getnewaddress),
             (Some ''bad_privacy_signer_1'', Sendtoaddress ''aa'' (toDouble (35 / 1000))),
             (Some ''bad_privacy_signer_1'', Getnewaddress),
             (Some ''bad_privacy_signer_1'', Sendtoaddress ''aaaa'' (toDouble (1 / 100))),
             (Some ''bad_privacy_signer_1'', Getnewaddress),
             (None, Generatetoaddress 2 ''aaaaaa'')],
          draws = 2, files = [] \<rparr>)
   \<and> createGoodPrivacyPattern modestNode sampleSigners world0
     = (Inr (),
        \<lparr> trace =
            [(Some ''bad_privacy_signer_1'', Getbalance),
             (Some ''bad_privacy_signer_1'', Getnewaddress),
             (Some ''bad_privacy_signer_1'', Sendtoaddress ''aa'' (toDouble (35 / 1000))),
             (Some ''bad_privacy_signer_1'', Getnewaddress),
             (Some ''bad_privacy_signer_1'', Sendtoaddress ''aaaa'' (toDouble (1 / 100))),
             (Some ''bad_privacy_signer_1'', Getnewaddress),
             (Some ''bad_privacy_signer_1'', Sendtoaddress ''aaaaaa'' (toDouble (1 / 100))),
             (Some ''bad_privacy_signer_1'', Getnewaddress),
             (None, Generatetoaddress 2 ''aaaaaaaa'')],
          draws = 3, files = [] \<rparr>)"
proof -
  let ?fresh = "\<lambda>h :: request list. replicate (Suc (length h)) CHR ''a''"
  have lt: "(0::rat) < 1" "toDouble (1 / 10) < 1" "(1::rat) / 2 < 1"
    unfolding literals by simp_all
  have b1: "answer_number emptyNode (trace world0)
      (Some (s_wallet coordinatorSigner), Getbalance) = Inr 0"
    by (simp add: emptyNode_def)
  have f1: "answer_string emptyNode h (Some (s_wallet coordinatorSigner), Getnewaddress)
      = Inr (?fresh h)" for h
    by (simp add: emptyNode_def)
  have b2: "answer_number nearlyEmptyNode (trace world0)
      (Some (s_wallet coordinatorSigner), Getbalance) = Inr (toDouble (1 / 10))"
    by (simp add: nearlyEmptyNode_def)
  have f2: "answer_string nearlyEmptyNode h (Some (s_wallet coordinatorSigner), Getnewaddress)
      = Inr (?fresh h)" for h
    by (simp add: nearlyEmptyNode_def)
  have b3: "answer_number modestNode (trace world0)
      (Some (s_wallet coordinatorSigner), Getbalance) = Inr (1 / 2)"
    by (simp add: modestNode_def)
  have f3: "answer_string modestNode h (Some (s_wallet coordinatorSigner), Getnewaddress)
      = Inr (?fresh h)" for h
    by (simp add: modestNode_def)
  have empty: "createGoodPrivacyPattern emptyNode sampleSigners world0
     = (Inr (),
        \<lparr> trace =
            [(Some ''bad_privacy_signer_1'', Getbalance),
             (Some ''bad_privacy_signer_1'', Getnewaddress),
             (Some ''bad_privacy_signer_1'', Sendtoaddress ''aa'' (toDouble (35 / 1000))),
             (Some ''bad_privacy_signer_1'', Getnewaddress),
             (None, Generatetoaddress 2 ''aaaa'')],
          draws = 1, files = [] \<rparr>)"
    using createGoodPrivacyPattern_low_balance
      [where E = emptyNode and w = world0 and s = coordinatorSigner and b = 0
        and fresh = ?fresh and rest = "[secondSigner]", OF b1 lt(1) f1]
    unfolding Let_def sampleSigners_def
    apply (simp add: emptyNode_def paymentsRefused_def isPayment_def world0_def
        coordinatorSigner_def)
    apply (simp add: number_defs double_eval)
    done
  have nearly: "createGoodPrivacyPattern nearlyEmptyNode sampleSigners world0
     = (Inr (),
        \<lparr> trace =
            [(Some ''bad_privacy_signer_1'', Getbalance),
             (Some ''bad_privacy_signer_1'', Getnewaddress),
             (Some ''bad_privacy_signer_1'', Sendtoaddress ''aa'' (toDouble (35 / 1000))),
             (Some ''bad_privacy_signer_1'', Getnewaddress),
             (Some ''bad_privacy_signer_1'', Sendtoaddress ''aaaa'' (toDouble (1 / 100))),
             (Some ''bad_privacy_signer_1'', Getnewaddress),
             (None, Generatetoaddress 2 ''aaaaaa'')],
          draws = 2, files = [] \<rparr>)"
    using createGoodPrivacyPattern_low_balance
      [where E = nearlyEmptyNode and w = world0 and s = coordinatorSigner
        and b = "toDouble (1 / 10)" and fresh = ?fresh and rest = "[secondSigner]",
        OF b2 lt(2) f2]
    unfolding Let_def sampleSigners_def
    apply (simp add: nearlyEmptyNode_def onePaymentAccepted_def isPayment_def world0_def
        coordinatorSigner_def)
    apply (simp add: number_defs double_eval)
    done
  have modest: "createGoodPrivacyPattern modestNode sampleSigners world0
     = (Inr (),
        \<lparr> trace =
            [(Some ''bad_privacy_signer_1'', Getbalance),
             (Some ''bad_privacy_signer_1'', Getnewaddress),
             (Some ''bad_privacy_signer_1'', Sendtoaddress ''aa'' (toDouble (35 / 1000))),
             (Some ''bad_privacy_signer_1'', Getnewaddress),
             (Some ''bad_privacy_signer_1'', Sendtoaddress ''aaaa'' (toDouble (1 / 100))),
             (Some ''bad_privacy_signer_1'', Getnewaddress),
             (Some ''bad_privacy_signer_1'', Sendtoaddress ''aaaaaa'' (toDouble (1 / 100))),
             (Some ''bad_privacy_signer_1'', Getnewaddress),
             (None, Generatetoaddress 2 ''aaaaaaaa'')],
          draws = 3, files = [] \<rparr>)"
    using createGoodPrivacyPattern_low_balance
      [where E = modestNode and w = world0 and s = coordinatorSigner and b = "1 / 2"
        and fresh = ?fresh and rest = "[secondSigner]", OF b3 lt(3) f3]
    unfolding Let_def sampleSigners_def
    apply (simp add: modestNode_def allAccepted_def world0_def
        coordinatorSigner_def)
    apply (simp add: number_defs double_eval)
    done
  from empty nearly modest show ?thesis
    by (intro conjI)
qed

text \<open>
  On a node whose coordinator holds nothing and which refuses the payment for lack of
  funds, the generator makes one payment attempt, not three, and goes on to the
  confirmation.
\<close>

theorem createGoodPrivacyPattern_counterexample:
  "answer_number emptyNode (trace world0) (Some ''bad_privacy_signer_1'', Getbalance) = Inr 0
   \<and> fst (createGoodPrivacyPattern emptyNode sampleSigners world0) = Inr ()
   \<and> filter isPayment
        (issued world0 (snd (createGoodPrivacyPattern emptyNode sampleSigners world0)))
     = [(Some ''bad_privacy_signer_1'', Sendtoaddress ''aa'' (toDouble (35 / 1000)))]"
  unfolding createGoodPrivacyPattern_def coordinatorOf_def sampleSigners_def ranges
  apply (simp add: coordinatorSigner_def emptyNode_def run_simps world0_def
      paymentsRefused_def isPayment_def issued_def)
  apply (simp add: number_defs double_eval)
  done

section \<open>The bad-privacy scenario\<close>

lemma createMultisigWallet_signers:
  assumes "createMultisigWallet E scenario w = (Inr m, w')"
  shows "map s_wallet (m_signers m) = [scenario @ ''_signer_1'', scenario @ ''_signer_2'']"
  using assms createSignerWallets_result [of E scenario w]
  unfolding createMultisigWallet_def
  by (auto simp: bindE_apply returnE_apply split: prod.splits sum.splits)

text \<open>The bad-privacy pattern on a node that answers the coordinator's address requests
  and accepts its payments and the confirming blocks.\<close>

lemma createBadPrivacyPattern_run:
  assumes "\<And>h. answer_string E h (Some (s_wallet s), Getnewaddress) = Inr (fresh h)"
    and "\<And>h a x. answer_void E h (Some (s_wallet s), Sendtoaddress a x) = None"
    and "\<And>h a. answer_void E h (None, Generatetoaddress 3 a) = None"
  shows "createBadPrivacyPattern E (s # rest) w =
    (let c = Some (s_wallet s);
         reused = fresh (trace w);
         t1 = trace w @ (c, Getnewaddress) # replicate 8 (c, Sendtoaddress reused (5 / 10));
         a1 = fresh t1;
         t2 = t1 @ [(c, Getnewaddress), (c, Sendtoaddress a1 1)];
         a2 = fresh t2;
         t3 = t2 @ [(c, Getnewaddress), (c, Sendtoaddress a2 2)];
         a3 = fresh t3;
         t4 = t3 @ [(c, Getnewaddress), (c, Sendtoaddress a3 5)]
     in (Inr (), w\<lparr>trace := t4 @ [(c, Getnewaddress), (None, Generatetoaddress 3 (fresh t4))]\<rparr>))"
  unfolding createBadPrivacyPattern_def coordinatorOf_def ranges replicate_8 Let_def
  by (simp add: run_simps assms)

text \<open>
  Claim C2, as the code has it. The pattern does not read the balance: what it needs is
  that the node answers the coordinator's address requests and accepts its payments and
  the confirming blocks. Then, after the multisig wallet of the scenario has been set up,
  \<open>generateBadPrivacyWallet\<close> sends exactly: one address request, 8 payments of 0.5 to
  the address returned; three times an address request and a payment (of 1, 2 and 5) to
  the address returned; one more address request and one request to mine 3 blocks. It
  then writes one document, at \<open>tmp/bad_privacy_caravan.json\<close>, with 2 signer entries
  and quorum 2 of 2. The four addresses are distinct on a node that hands out a new
  address at every request.
\<close>

theorem generateBadPrivacyWallet_run:
  assumes "createMultisigWallet E ''bad_privacy'' w0 = (Inr m, w)"
    and "\<And>h. answer_string E h (Some ''bad_privacy_signer_1'', Getnewaddress) = Inr (fresh h)"
    and "\<And>h a x. answer_void E h (Some ''bad_privacy_signer_1'', Sendtoaddress a x) = None"
    and "\<And>h a. answer_void E h (None, Generatetoaddress 3 a) = None"
  shows
    "let c = Some ''bad_privacy_signer_1'';
         reused = fresh (trace w);
         t1 = trace w @ (c, Getnewaddress) # replicate 8 (c, Sendtoaddress reused (5 / 10));
         a1 = fresh t1;
         t2 = t1 @ [(c, Getnewaddress), (c, Sendtoaddress a1 1)];
         a2 = fresh t2;
         t3 = t2 @ [(c, Getnewaddress), (c, Sendtoaddress a2 2)];
         a3 = fresh t3;
         t4 = t3 @ [(c, Getnewaddress), (c, Sendtoaddress a3 5)];
         doc = caravanConfig E ''bad_privacy'' (m_signers m)
     in generateBadPrivacyWallet E w0
          = (Inr (),
             w\<lparr>trace := t4 @ [(c, Getnewaddress), (None, Generatetoaddress 3 (fresh t4))],
               files := AList.update ''tmp/bad_privacy_caravan.json'' doc (files w)\<rparr>)
        \<and> length (w_extendedPublicKeys doc) = 2
        \<and> w_requiredSigners doc = 2 \<and> w_totalSigners doc = 2
        \<and> ((\<forall>h h'. length h \<noteq> length h' \<longrightarrow> fresh h \<noteq> fresh h')
             \<longrightarrow> distinct [reused, a1, a2, a3])"
proof -
  from createMultisigWallet_signers [OF assms(1)]
  obtain s1 s2 where signers: "m_signers m = [s1, s2]"
    and coordinator: "s_wallet s1 = ''bad_privacy_signer_1''"
    by auto
  note pattern = createBadPrivacyPattern_run
    [of E s1 fresh "[s2]" w, unfolded coordinator, OF assms(2-4)]
  have run: "generateBadPrivacyWallet E w0
      = bindE (createBadPrivacyPattern E [s1, s2])
          (\<lambda>_. saveCaravanConfig E ''bad_privacy'' [s1, s2]) w"
    by (simp add: generateBadPrivacyWallet_def bindE_apply assms(1) signers)
  have entries: "length (w_extendedPublicKeys (caravanConfig E ''bad_privacy'' [s1, s2])) = 2"
    "w_requiredSigners (caravanConfig E ''bad_privacy'' [s1, s2]) = 2"
    "w_totalSigners (caravanConfig E ''bad_privacy'' [s1, s2]) = 2"
    by (simp_all add: caravanConfig_def)
  show ?thesis
    unfolding run signers Let_def
    using pattern entries
    by (simp add: Let_def bindE_apply saveCaravanConfig_def fsWriteFile_apply configPath_def)
qed

theorem generateBadPrivacyWallet_run_witness:
  "\<exists>m w. createMultisigWallet fundedNode ''bad_privacy'' world0 = (Inr m, w)
     \<and> (let c = Some ''bad_privacy_signer_1'';
             fresh = (\<lambda>h. replicate (Suc (length h)) CHR ''a'');
             reused = fresh (trace w);
             t1 = trace w @ (c, Getnewaddress) # replicate 8 (c, Sendtoaddress reused (5 / 10));
             a1 = fresh t1;
             t2 = t1 @ [(c, Getnewaddress), (c, Sendtoaddress a1 1)];
             a2 = fresh t2;
             t3 = t2 @ [(c, Getnewaddress), (c, Sendtoaddress a2 2)];
             a3 = fresh t3;
             t4 = t3 @ [(c, Getnewaddress), (c, Sendtoaddress a3 5)];
             doc = caravanConfig fundedNode ''bad_privacy'' (m_signers m)
         in generateBadPrivacyWallet fundedNode world0
              = (Inr (),
                 w\<lparr>trace := t4 @ [(c, Getnewaddress), (None, Generatetoaddress 3 (fresh t4))],
                   files := AList.update ''tmp/bad_privacy_caravan.json'' doc (files w)\<rparr>)
            \<and> length (w_extendedPublicKeys doc) = 2
            \<and> w_requiredSigners doc = 2 \<and> w_totalSigners doc = 2
            \<and> distinct [reused, a1, a2, a3])"
proof -
  have "\<not> isl (fst (createMultisigWallet fundedNode ''bad_privacy'' world0))"
    unfolding generator_defs ranges signer_numbers
    by (simp add: run_simps fundedNode_def world0_def allAccepted_def string_defs)
  then obtain m w where cm: "createMultisigWallet fundedNode ''bad_privacy'' world0 = (Inr m, w)"
    by (cases "createMultisigWallet fundedNode ''bad_privacy'' world0";
        cases "fst (createMultisigWallet fundedNode ''bad_privacy'' world0)") auto
  have fresh: "answer_string fundedNode h (Some ''bad_privacy_signer_1'', Getnewaddress)
      = Inr (replicate (Suc (length h)) CHR ''a'')" for h
    by (simp add: fundedNode_def)
  have paid: "answer_void fundedNode h (Some ''bad_privacy_signer_1'', Sendtoaddress a x) = None"
    for h a x
    by (simp add: fundedNode_def allAccepted_def)
  have mined: "answer_void fundedNode h (None, Generatetoaddress 3 a) = None" for h a
    by (simp add: fundedNode_def allAccepted_def)
  have nodup: "\<forall>h h'. length h \<noteq> length h' \<longrightarrow>
      replicate (Suc (length h)) CHR ''a'' \<noteq> replicate (Suc (length h')) CHR ''a''"
    by (simp add: replicate_eq_replicate)
  note run = generateBadPrivacyWallet_run
    [of fundedNode world0 m w "\<lambda>h. replicate (Suc (length h)) CHR ''a''", OF cm fresh paid mined]
  show ?thesis
    using run nodup cm
    unfolding Let_def
    by (intro exI [of _ m] exI [of _ w]) blast
qed

text \<open>
  A coordinator that holds exactly 5 cannot pay 5: on a node that refuses that payment the
  pattern stops with the error after 8 payments of 0.5 and the payments of 1 and 2; no
  block is mined and no document is written. The whole scenario run ends the same way.
\<close>

theorem generateBadPrivacyWallet_counterexample:
  "answer_number tightNode (trace world0) (Some ''bad_privacy_signer_1'', Getbalance) = Inr 5
   \<and> bindE (createBadPrivacyPattern tightNode sampleSigners)
        (\<lambda>_. saveCaravanConfig tightNode ''bad_privacy'' sampleSigners) world0
     = (Inl insufficientFunds,
        \<lparr> trace =
            [(Some ''bad_privacy_signer_1'', Getnewaddress),
             (Some ''bad_privacy_signer_1'', Sendtoaddress ''a'' (5 / 10)),
             (Some ''bad_privacy_signer_1'', Sendtoaddress ''a'' (5 / 10)),
             (Some ''bad_privacy_signer_1'', Sendtoaddress ''a'' (5 / 10)),
             (Some ''bad_privacy_signer_1'', Sendtoaddress ''a'' (5 / 10)),
             (Some ''bad_privacy_signer_1'', Sendtoaddress ''a'' (5 / 10)),
             (Some ''bad_privacy_signer_1'', Sendtoaddress ''a'' (5 / 10)),
             (Some ''bad_privacy_signer_1'', Sendtoaddress ''a'' (5 / 10)),
             (Some ''bad_privacy_signer_1'', Sendtoaddress ''a'' (5 / 10)),
             (Some ''bad_privacy_signer_1'', Getnewaddress),
             (Some ''bad_privacy_signer_1'', Sendtoaddress ''aaaaaaaaaa'' 1),
             (Some ''bad_privacy_signer_1'', Getnewaddress),
             (Some ''bad_privacy_signer_1'', Sendtoaddress ''aaaaaaaaaaaa'' 2),
             (Some ''bad_privacy_signer_1'', Getnewaddress),
             (Some ''bad_privacy_signer_1'', Sendtoaddress ''aaaaaaaaaaaaaa'' 5)],
          draws = 0, files = [] \<rparr>)
   \<and> fst (generateBadPrivacyWallet tightNode world0) = Inl insufficientFunds
   \<and> files (snd (generateBadPrivacyWallet tightNode world0)) = []"
proof (intro conjI)
  show "answer_number tightNode (trace world0) (Some ''bad_privacy_signer_1'', Getbalance)
      = Inr 5"
    by (simp add: tightNode_def)
next
  show "bindE (createBadPrivacyPattern tightNode sampleSigners)
        (\<lambda>_. saveCaravanConfig tightNode ''bad_privacy'' sampleSigners) world0
     = (Inl insufficientFunds,
        \<lparr> trace =
            [(Some ''bad_privacy_signer_1'', Getnewaddress),
             (Some ''bad_privacy_signer_1'', Sendtoaddress ''a'' (5 / 10)),
             (Some ''bad_privacy_signer_1'', Sendtoaddress ''a'' (5 / 10)),
             (Some ''bad_privacy_signer_1'', Sendtoaddress ''a'' (5 / 10)),
             (Some ''bad_privacy_signer_1'', Sendtoaddress ''a'' (5 / 10)),
             (Some ''bad_privacy_signer_1'', Sendtoaddress ''a'' (5 / 10)),
             (Some ''bad_privacy_signer_1'', Sendtoaddress ''a'' (5 / 10)),
             (Some ''bad_privacy_signer_1'', Sendtoaddress ''a'' (5 / 10)),
             (Some ''bad_privacy_signer_1'', Sendtoaddress ''a'' (5 / 10)),
             (Some ''bad_privacy_signer_1'', Getnewaddress),
             (Some ''bad_privacy_signer_1'', Sendtoaddress ''aaaaaaaaaa'' 1),
             (Some ''bad_privacy_signer_1'', Getnewaddress),
             (Some ''bad_privacy_signer_1'', Sendtoaddress ''aaaaaaaaaaaa'' 2),
             (Some ''bad_privacy_signer_1'', Getnewaddress),
             (Some ''bad_privacy_signer_1'', Sendtoaddress ''aaaaaaaaaaaaaa'' 5)],
          draws = 0, files = [] \<rparr>)"
    unfolding createBadPrivacyPattern_def coordinatorOf_def ranges sampleSigners_def
    by (simp add: run_simps tightNode_def world0_def coordinatorSigner_def
        largePaymentsRefused_def)
next
  show "fst (generateBadPrivacyWallet tightNode world0) = Inl insufficientFunds"
    unfolding generateBadPrivacyWallet_def createBadPrivacyPattern_def generator_defs ranges
      signer_numbers
    by (simp add: run_simps tightNode_def world0_def largePaymentsRefused_def string_defs
        amountPerAddress_def roundedAmount_def)
next
  show "files (snd (generateBadPrivacyWallet tightNode world0)) = []"
    unfolding generateBadPrivacyWallet_def createBadPrivacyPattern_def generator_defs ranges
      signer_numbers
    by (simp add: run_simps tightNode_def world0_def largePaymentsRefused_def string_defs
        amountPerAddress_def roundedAmount_def)
qed

section \<open>Orchestration\<close>

lemma setupBitcoinEnvironment_sendsOnly:
  "sendsOnly minerSetupRequest (setupBitcoinEnvironment E)"
  unfolding setupBitcoinEnvironment_def setupInitialState_def ensureMinerWallet_def
  by (intro sendsOnly_bindE sendsOnly_catchE sendsOnly_if sendsOnly_rpc sendsOnly_returnE
      sendsOnly_throwE) simp_all

lemma cleanupPreviousWallets_run:
  "cleanupPreviousWallets E w
     = (Inr (), w\<lparr>trace := trace w @ map (\<lambda>n. (None, Unloadwallet n)) cleanupNames\<rparr>)"
  unfolding cleanupPreviousWallets_def scenarios_def ranges forOf.simps signer_numbers
    cleanupNames_def
  by (simp add: bindE_apply returnE_apply snd_rpc_void)

lemma fsAccess_present:
  assumes "map_of (files w) path \<noteq> None"
  shows "catchE (fsAccess path) h w = (Inr (), w)"
  using assms by (auto simp: catchE_apply fsAccess_def)

lemma scenarios_skipped:
  assumes "fixturesExist w"
  shows "forOf
       [(''bad_privacy'', generateBadPrivacyWallet E),
        (''bad_waste'', generateBadWasteWallet E),
        (''good_privacy'', generateGoodPrivacyWallet E),
        (''good_waste'', generateGoodWasteWallet E)]
       (\<lambda>scenario. catchE (fsAccess (configPath (fst scenario))) (\<lambda>e. snd scenario)) w
     = (Inr (), w)"
  using assms
  by (simp add: fixturesExist_def scenarios_def bindE_apply returnE_apply fsAccess_present)

lemma fixturesExist_trace [simp]: "fixturesExist (w\<lparr>trace := t\<rparr>) = fixturesExist w"
  by (simp add: fixturesExist_def)

text \<open>A run with all four documents present: the node set-up, then the clean-up, and no
  scenario.\<close>

lemma generateAllWallets_skips:
  assumes "fixturesExist w"
  shows "generateAllWallets E w
    = (case setupBitcoinEnvironment E w of
         (Inl e, w') \<Rightarrow> (Inl e, w')
       | (Inr u, w') \<Rightarrow>
           (Inr (), w'\<lparr>trace := trace w' @ map (\<lambda>n. (None, Unloadwallet n)) cleanupNames\<rparr>))"
proof -
  obtain ts where ts: "snd (setupBitcoinEnvironment E w) = w\<lparr>trace := trace w @ ts\<rparr>"
    using setupBitcoinEnvironment_sendsOnly [of E] unfolding sendsOnly_def by blast
  show ?thesis
  proof (cases "setupBitcoinEnvironment E w")
    case (Pair r w')
    with ts have "fixturesExist w'" using assms by simp
    then have "fixturesExist
        (w'\<lparr>trace := trace w' @ map (\<lambda>n. (None, Unloadwallet n)) cleanupNames\<rparr>)"
      by simp
    from scenarios_skipped [OF this, of E] Pair show ?thesis
      by (simp add: generateAllWallets_def bindE_apply cleanupPreviousWallets_run
          split: sum.splits)
  qed
qed

lemma minerSetupRequest_other_wallet:
  assumes "minerSetupRequest r" and "n \<noteq> ''miner''"
  shows "\<not> touchesWallet n r"
  using assms by (cases r rule: minerSetupRequest.cases) auto

lemma unloadRequest_touches_nothing:
  assumes "unloadRequest r"
  shows "\<not> touchesWallet n r"
  using assms by (cases r rule: unloadRequest.cases) auto

lemma miner_not_cleaned: "n \<in> set cleanupNames \<Longrightarrow> n \<noteq> ''miner''"
  by (auto simp: cleanupNames_def)

lemma setup_or_unload_touch_nothing:
  assumes "list_all (\<lambda>r. minerSetupRequest r \<or> unloadRequest r) ts"
  shows "list_all (\<lambda>n. \<not> list_ex (touchesWallet n) ts) cleanupNames"
  using assms minerSetupRequest_other_wallet unloadRequest_touches_nothing miner_not_cleaned
  unfolding list_all_iff list_ex_iff by blast

text \<open>
  Claim C1, as the code has it. When all four fixture documents exist, a run of
  \<open>generateAllWallets\<close> starts no scenario: no wallet of any scenario is created or
  loaded, nothing is sent through the client of a scenario wallet (so none is funded or
  spent from), no document is written and no random number is drawn. What the run does
  send is the node set-up (chain info and the requests that ensure the \<open>miner\<close> wallet)
  and then, unless the set-up failed, the clean-up: one \<open>unloadwallet\<close> request for each of
  the 12 scenario wallets, whether or not its document exists.
\<close>

theorem generateAllWallets_fixtures_present:
  assumes "fixturesExist w"
  shows "\<exists>ts. snd (generateAllWallets E w) = w\<lparr>trace := trace w @ ts\<rparr>
      \<and> list_all (\<lambda>r. minerSetupRequest r \<or> unloadRequest r) ts
      \<and> list_all (\<lambda>n. \<not> list_ex (touchesWallet n) ts) cleanupNames
      \<and> (fst (generateAllWallets E w) = Inr () \<longrightarrow>
            (\<exists>ss. ts = ss @ map (\<lambda>n. (None, Unloadwallet n)) cleanupNames
                 \<and> list_all minerSetupRequest ss))"
proof -
  let ?unloads = "map (\<lambda>n. (None, Unloadwallet n)) cleanupNames"
  obtain ss where ss: "snd (setupBitcoinEnvironment E w) = w\<lparr>trace := trace w @ ss\<rparr>"
    "list_all minerSetupRequest ss"
    using setupBitcoinEnvironment_sendsOnly [of E] unfolding sendsOnly_def by blast
  have unloads: "list_all unloadRequest ?unloads"
    by (simp add: list_all_iff)
  show ?thesis
  proof (cases "fst (setupBitcoinEnvironment E w)")
    case (Inl e)
    with ss have run: "generateAllWallets E w = (Inl e, w\<lparr>trace := trace w @ ss\<rparr>)"
      by (cases "setupBitcoinEnvironment E w")
         (simp add: generateAllWallets_skips [OF assms])
    have kinds: "list_all (\<lambda>r. minerSetupRequest r \<or> unloadRequest r) ss"
      using ss(2) by (simp add: list_all_iff)
    from kinds setup_or_unload_touch_nothing [OF kinds] show ?thesis
      by (intro exI [of _ ss]) (simp add: run)
  next
    case (Inr u)
    with ss have run: "generateAllWallets E w
        = (Inr (), w\<lparr>trace := trace w @ ss @ ?unloads\<rparr>)"
      by (cases "setupBitcoinEnvironment E w")
         (simp add: generateAllWallets_skips [OF assms])
    have kinds: "list_all (\<lambda>r. minerSetupRequest r \<or> unloadRequest r) (ss @ ?unloads)"
      using ss(2) unloads by (auto simp: list_all_iff)
    from kinds setup_or_unload_touch_nothing [OF kinds] ss(2) show ?thesis
      by (intro exI [of _ "ss @ ?unloads"]) (simp add: run)
  qed
qed

lemma fixturesWorld_present: "fixturesExist fixturesWorld"
  by (simp add: fixturesExist_def fixturesWorld_def scenarios_def configPath_def)

lemma fundedNode_second_run:
  "generateAllWallets fundedNode fixturesWorld
     = (Inr (),
        fixturesWorld\<lparr>trace :=
          [(None, Getblockchaininfo), (None, Listwallets)]
          @ map (\<lambda>n. (None, Unloadwallet n)) cleanupNames\<rparr>)"
proof -
  have ready: "setupBitcoinEnvironment fundedNode fixturesWorld
      = (Inr (),
         fixturesWorld\<lparr>trace := [(None, Getblockchaininfo), (None, Listwallets)]\<rparr>)"
    unfolding setupBitcoinEnvironment_def ensureMinerWallet_def
    by (simp add: run_simps fundedNode_def fixturesWorld_def)
  show ?thesis
    by (simp add: generateAllWallets_skips [OF fixturesWorld_present] ready)
qed

theorem generateAllWallets_fixtures_present_witness:
  "fixturesExist fixturesWorld
   \<and> fst (generateAllWallets fundedNode fixturesWorld) = Inr ()
   \<and> (\<exists>ts ss. snd (generateAllWallets fundedNode fixturesWorld)
             = fixturesWorld\<lparr>trace := trace fixturesWorld @ ts\<rparr>
         \<and> list_all (\<lambda>r. minerSetupRequest r \<or> unloadRequest r) ts
         \<and> list_all (\<lambda>n. \<not> list_ex (touchesWallet n) ts) cleanupNames
         \<and> ts = ss @ map (\<lambda>n. (None, Unloadwallet n)) cleanupNames
         \<and> list_all minerSetupRequest ss)"
proof -
  have returns: "fst (generateAllWallets fundedNode fixturesWorld) = Inr ()"
    by (simp add: fundedNode_second_run)
  from fixturesWorld_present returns
    generateAllWallets_fixtures_present [OF fixturesWorld_present, of fundedNode]
  show ?thesis by blast
qed

text \<open>
  A second run on a healthy node, with the four documents of the first run on disk: after
  the chain info and the wallet list it sends the 12 \<open>unloadwallet\<close> requests, so the
  wallets of every scenario are unloaded again.
\<close>

theorem generateAllWallets_second_run_counterexample:
  "fixturesExist fixturesWorld
   \<and> generateAllWallets fundedNode fixturesWorld
     = (Inr (),
        fixturesWorld\<lparr>trace :=
          [(None, Getblockchaininfo), (None, Listwallets),
           (None, Unloadwallet ''bad_privacy_signer_1''),
           (None, Unloadwallet ''bad_privacy_signer_2''),
           (None, Unloadwallet ''bad_privacy_watcher''),
           (None, Unloadwallet ''bad_waste_signer_1''),
           (None, Unloadwallet ''bad_waste_signer_2''),
           (None, Unloadwallet ''bad_waste_watcher''),
           (None, Unloadwallet ''good_privacy_signer_1''),
           (None, Unloadwallet ''good_privacy_signer_2''),
           (None, Unloadwallet ''good_privacy_watcher''),
           (None, Unloadwallet ''good_waste_signer_1''),
           (None, Unloadwallet ''good_waste_signer_2''),
           (None, Unloadwallet ''good_waste_watcher'')]\<rparr>)"
  using fixturesWorld_present
  by (simp add: fundedNode_second_run cleanupNames_def)

end
